theory Spec2Isabelle
  imports Main "HOL-Library.AList"
begin

section \<open>The Twisted STOMP client of stompest (stompest/async/client.py)\<close>

text \<open>
  The class StompClient is a state machine driven by calls of its user (connect,
  disconnect, subscribe, unsubscribe, send), by the transport (dataReceived,
  connectionLost), by the reactor (the connect timeout) and by the Deferreds of
  message handlers that finish later. The embedding is explicit state passing: every
  method takes the client and returns the client it leaves behind, together with its
  return value or the exception it raised.

  Naming: a Python name with a leading underscore is written with the prefix u_
  (the method _disconnect is \<open>u_disconnect\<close>), since an Isabelle name cannot start
  with an underscore.
\<close>

subsection \<open>Frames, errors, handlers\<close>

type_synonym headers = "(string \<times> string) list"

text \<open>
  A frame (StompFrame, or the dict with the keys cmd, headers and body that the parser
  yields). The headers dict is an association list read with \<open>map_of\<close> and written
  with \<open>AList.update\<close>.
\<close>

record frame =
  cmd :: string
  headers :: headers
  body :: string

text \<open>
  The exceptions of stompest.error that client.py raises or stores, the Python
  exceptions its dict, set and attribute accesses raise, UnknownSubscription of the
  session, and HandlerError for whatever exception a message handler of the user raises.
\<close>

datatype error =
    StompConnectTimeout
  | StompFrameError
  | StompProtocolError string
  | StompConnectionError
  | UnknownSubscription
  | KeyError
  | AttributeError
  | HandlerError string

text \<open>
  A message handler is code of the user. It is modelled by what its call does at once:
  it returns (or returns a Deferred that has already fired with a result), it raises
  (or returns a Deferred that has already failed), or it returns a Deferred that has
  not fired yet. The handler is taken not to call methods of the client itself.
\<close>

datatype handler_result = Returned | Raised error | ReturnedDeferred

type_synonym handler = "frame \<Rightarrow> handler_result"

text \<open>
  What a method decorated with inlineCallbacks hands back: a Deferred that has fired
  with a result, that has failed with the exception raised inside the generator, or
  that is still waiting at the yield.
\<close>

datatype deferred_state = Succeeded | Failed error | Pending

text \<open>How a Deferred handed to the user was fired: callback(self) or errback(error).\<close>

datatype firing = Callback | Errback error

datatype log_entry = LogWarning string | LogError string

type_synonym token = "string option \<times> string option"

type_synonym kwargs = "(string \<times> string) list"

record subscribe_context =
  ctx_handler :: handler
  ctx_kwargs :: kwargs

subsection \<open>Protocol constants and frame builders\<close>

text \<open>
  Modelled from the spec: the header names of stompest.protocol.spec.StompSpec, which is
  not part of the sources at hand. The spec calls them the message-id header, the
  destination header, the subscription-id header and the ack header.
\<close>

definition MESSAGE_ID_HEADER :: string where
  "MESSAGE_ID_HEADER = ''message-id''"

definition DESTINATION_HEADER :: string where
  "DESTINATION_HEADER = ''destination''"

definition ID_HEADER :: string where
  "ID_HEADER = ''id''"

definition ACK_HEADER :: string where
  "ACK_HEADER = ''ack''"

text \<open>
  Modelled from the spec: the frame builders of stompest.protocol.commands, which is not
  part of the sources at hand. connect builds the CONNECT frame from login and passcode,
  disconnect the DISCONNECT frame, ack an ACK frame carrying the headers it is given
  (the message-id), send a SEND frame for a destination with a body and headers.
\<close>

definition commands_connect :: "string \<Rightarrow> string \<Rightarrow> frame" where
  "commands_connect login passcode =
     \<lparr>cmd = ''CONNECT'', headers = [(''login'', login), (''passcode'', passcode)], body = []\<rparr>"

definition commands_disconnect :: frame where
  "commands_disconnect = \<lparr>cmd = ''DISCONNECT'', headers = [], body = []\<rparr>"

definition commands_ack :: "headers \<Rightarrow> frame" where
  "commands_ack h = \<lparr>cmd = ''ACK'', headers = h, body = []\<rparr>"

definition commands_send :: "string \<Rightarrow> string \<Rightarrow> headers option \<Rightarrow> frame" where
  "commands_send dest msg hdrs =
     \<lparr>cmd = ''SEND'',
      headers = AList.update DESTINATION_HEADER dest (case hdrs of None \<Rightarrow> [] | Some h \<Rightarrow> h),
      body = msg\<rparr>"

text \<open>
  Modelled from the spec: cloneStompMessage of stompest.util, which is not part of the
  sources at hand. The spec says the failed message is cloned and the clone marked
  persistent.
\<close>

definition cloneStompMessage :: "frame \<Rightarrow> bool \<Rightarrow> frame" where
  "cloneStompMessage msg persistent =
     msg\<lparr>headers := AList.update ''persistent'' (if persistent then ''true'' else ''false'')
                      (headers msg)\<rparr>"

subsection \<open>Session State\<close>

text \<open>
  Modelled from the spec: StompSession of stompest.protocol.session, which is not part of
  the sources at hand. The session holds the ordered mapping from token to the recorded
  subscription (destination, headers, context) and a counter for fresh subscription ids.
\<close>

record stomp_session =
  recorded :: "(token \<times> string \<times> headers \<times> subscribe_context) list"
  nextId :: nat

definition StompSession :: stomp_session where
  "StompSession = \<lparr>recorded = [], nextId = 0\<rparr>"

definition digit :: "nat \<Rightarrow> char" where
  "digit n = (case drop n ''0123456789'' of c # cs \<Rightarrow> c | [] \<Rightarrow> CHR ''9'')"

fun decimal :: "nat \<Rightarrow> string" where
  "decimal n = (if n < 10 then [digit n] else decimal (n div 10) @ [digit (n mod 10)])"

declare decimal.simps [simp del]

text \<open>
  Modelled from the spec: token derives the lookup key from the destination and the
  subscription-id header.
\<close>

definition session_token :: "headers \<Rightarrow> token" where
  "session_token h = (map_of h DESTINATION_HEADER, map_of h ID_HEADER)"

text \<open>
  Modelled from the spec: subscribe assigns a fresh subscription id header if absent,
  records the subscription under its token and returns the SUBSCRIBE frame.
\<close>

definition session_subscribe ::
  "string \<Rightarrow> headers option \<Rightarrow> subscribe_context \<Rightarrow> stomp_session \<Rightarrow> frame \<times> stomp_session" where
  "session_subscribe dest hdrs ctx sess =
     (let h0 = AList.update DESTINATION_HEADER dest (case hdrs of None \<Rightarrow> [] | Some h \<Rightarrow> h);
          fresh = (map_of h0 ID_HEADER = None);
          h1 = (if fresh then AList.update ID_HEADER (decimal (nextId sess)) h0 else h0)
      in (\<lparr>cmd = ''SUBSCRIBE'', headers = h1, body = []\<rparr>,
          sess\<lparr>recorded := AList.update (session_token h1) (dest, h1, ctx) (recorded sess),
               nextId := (if fresh then Suc (nextId sess) else nextId sess)\<rparr>))"

definition token_headers :: "token \<Rightarrow> headers" where
  "token_headers tok =
     (case fst tok of None \<Rightarrow> [] | Some d \<Rightarrow> [(DESTINATION_HEADER, d)]) @
     (case snd tok of None \<Rightarrow> [] | Some i \<Rightarrow> [(ID_HEADER, i)])"

text \<open>
  Modelled from the spec: unsubscribe builds the UNSUBSCRIBE frame and removes the
  subscription record; it fails with UnknownSubscription if the token has no active
  record.
\<close>

definition session_unsubscribe ::
  "token \<Rightarrow> stomp_session \<Rightarrow> error + (frame \<times> stomp_session)" where
  "session_unsubscribe tok sess =
     (case map_of (recorded sess) tok of
        None \<Rightarrow> Inl UnknownSubscription
      | Some r \<Rightarrow>
          Inr (\<lparr>cmd = ''UNSUBSCRIBE'', headers = token_headers tok, body = []\<rparr>,
               sess\<lparr>recorded := AList.delete tok (recorded sess)\<rparr>))"

text \<open>
  Modelled from the spec: replay yields every recorded subscription in insertion order
  and forgets the records (client.py relies on that: "forget subscriptions upon graceful
  disconnect"); the subscriptions come back when the client subscribes again.
\<close>

definition session_replay ::
  "stomp_session \<Rightarrow> (string \<times> headers \<times> subscribe_context) list \<times> stomp_session" where
  "session_replay sess = (map snd (recorded sess), sess\<lparr>recorded := []\<rparr>)"

subsection \<open>The client\<close>

text \<open>An entry of the dict _subscriptions of the client.\<close>

record subscription =
  destination :: string
  handler :: handler
  ack :: string
  errorDestination :: "string option"

text \<open>
  The attributes that __init__ sets, and the surroundings the methods act on:
  \<^item> \<open>parser\<close>: the frames the StompParser holds and has not handed out yet;
  \<^item> \<open>written\<close>: the frames given to transport.write, in order;
  \<^item> \<open>loseConnectionCalls\<close>: how often transport.loseConnection was called;
  \<^item> \<open>nextDeferred\<close>, \<open>fired\<close>: a Deferred is the number it was created with, and
    \<open>fired\<close> lists the callback and errback calls made on Deferreds, in order;
  \<^item> \<open>suspended\<close>: the generators of _handleMessage that wait at their yield, each with
    its local variables messageId, msg and subscription;
  \<^item> \<open>logged\<close>: the warnings and errors given to the logger (debug and info are left
    out).
\<close>

record client =
  session :: stomp_session
  alwaysDisconnectOnUnhandledMsg :: bool
  subscriptions :: "(token \<times> subscription) list"
  connectedDeferred :: "nat option"
  connectTimeoutDelayedCall :: "nat option"
  connectError :: "error option"
  disconnectedDeferred :: "nat option"
  finishedHandlersDeferred :: "nat option"
  disconnecting :: bool
  disconnectError :: "error option"
  activeHandlers :: "string set"
  parser :: "frame list"
  written :: "frame list"
  loseConnectionCalls :: nat
  nextDeferred :: nat
  fired :: "(nat \<times> firing) list"
  suspended :: "(string \<times> frame \<times> subscription) list"
  logged :: "log_entry list"

definition CLIENT_ACK_MODES :: "string set" where
  "CLIENT_ACK_MODES = {''client'', ''client-individual''}"

definition DEFAULT_ACK_MODE :: string where
  "DEFAULT_ACK_MODE = ''client''"

text \<open>__init__(session=None, alwaysDisconnectOnUnhandledMsg=False)\<close>

definition init :: "stomp_session option \<Rightarrow> bool \<Rightarrow> client" where
  "init sess always =
     \<lparr>session = (case sess of None \<Rightarrow> StompSession | Some x \<Rightarrow> x),
      alwaysDisconnectOnUnhandledMsg = always,
      subscriptions = [],
      connectedDeferred = None,
      connectTimeoutDelayedCall = None,
      connectError = None,
      disconnectedDeferred = None,
      finishedHandlersDeferred = None,
      disconnecting = False,
      disconnectError = None,
      activeHandlers = {},
      parser = [],
      written = [],
      loseConnectionCalls = 0,
      nextDeferred = 0,
      fired = [],
      suspended = [],
      logged = []\<rparr>"

text \<open>sendFrame: _toFrame leaves a frame as it is, _write hands it to the transport.\<close>

definition sendFrame :: "frame \<Rightarrow> client \<Rightarrow> client" where
  "sendFrame f s = s\<lparr>written := written s @ [f]\<rparr>"

definition loseConnection :: "client \<Rightarrow> client" where
  "loseConnection s = s\<lparr>loseConnectionCalls := Suc (loseConnectionCalls s)\<rparr>"

definition fire :: "nat \<Rightarrow> firing \<Rightarrow> client \<Rightarrow> client" where
  "fire d r s = s\<lparr>fired := fired s @ [(d, r)]\<rparr>"

definition log :: "log_entry \<Rightarrow> client \<Rightarrow> client" where
  "log e s = s\<lparr>logged := logged s @ [e]\<rparr>"

definition u_connect :: "string \<Rightarrow> string \<Rightarrow> client \<Rightarrow> client" where
  "u_connect login passcode s = sendFrame (commands_connect login passcode) s"

definition connect :: "string \<Rightarrow> string \<Rightarrow> nat option \<Rightarrow> client \<Rightarrow> nat \<times> client" where
  "connect login passcode timeout s =
     (let s1 = (case timeout of None \<Rightarrow> s | Some t \<Rightarrow> s\<lparr>connectTimeoutDelayedCall := Some t\<rparr>);
          s2 = u_connect login passcode s1;
          d = nextDeferred s2
      in (d, s2\<lparr>connectedDeferred := Some d, nextDeferred := Suc d\<rparr>))"

definition u_handlersInProgress :: "client \<Rightarrow> bool" where
  "u_handlersInProgress s = (activeHandlers s \<noteq> {})"

definition u_finishHandlers :: "client \<Rightarrow> nat option \<times> client" where
  "u_finishHandlers s =
     (if u_handlersInProgress s
      then (let d = nextDeferred s
            in (Some d, s\<lparr>finishedHandlersDeferred := Some d, nextDeferred := Suc d\<rparr>))
      else (None, s))"

definition u_disconnect :: "client \<Rightarrow> client" where
  "u_disconnect s =
     (let s1 = loseConnection (sendFrame commands_disconnect s)
      in if disconnectError s1 = None
         then s1\<lparr>session := snd (session_replay (session s1))\<rparr>
         else s1)"

text \<open>
  disconnect(failure=None). maybeDeferred(self._finishHandlers).addBoth(lambda _:
  self._disconnect()) runs _disconnect at once when _finishHandlers returns None, and
  leaves it as the callback of the Deferred that _finishHandlers created otherwise.
  An exception object is true in Python, so "if failure" is "failure is not None".
\<close>

definition disconnect :: "error option \<Rightarrow> client \<Rightarrow> nat option \<times> client" where
  "disconnect failure s =
     (let s1 = (case failure of None \<Rightarrow> s | Some e \<Rightarrow> s\<lparr>disconnectError := Some e\<rparr>);
          s2 = (if \<not> disconnecting s1
                then (case u_finishHandlers (s1\<lparr>disconnecting := True\<rparr>) of
                        (None, s') \<Rightarrow> u_disconnect s'
                      | (Some d, s') \<Rightarrow> s')
                else s1)
      in (disconnectedDeferred s2, s2))"

text \<open>
  subscribe(dest, handler, headers=None, **kwargs). headers.setdefault puts the default
  ack mode into the headers of the frame when they have none; _createHandler wraps the
  handler so that it is called with the client and the message.
\<close>

definition subscribe ::
  "string \<Rightarrow> handler \<Rightarrow> headers option \<Rightarrow> kwargs \<Rightarrow> client \<Rightarrow> (error + token) \<times> client" where
  "subscribe dest h hdrs kw s =
     (let errDest = map_of kw ''errorDestination'';
          r = session_subscribe dest hdrs \<lparr>ctx_handler = h, ctx_kwargs = kw\<rparr> (session s);
          s1 = s\<lparr>session := snd r\<rparr>;
          hs = (case map_of (headers (fst r)) ACK_HEADER of
                  None \<Rightarrow> headers (fst r) @ [(ACK_HEADER, DEFAULT_ACK_MODE)]
                | Some v \<Rightarrow> headers (fst r));
          a = (case map_of (headers (fst r)) ACK_HEADER of
                  None \<Rightarrow> DEFAULT_ACK_MODE
                | Some v \<Rightarrow> v);
          f = (fst r)\<lparr>headers := hs\<rparr>;
          tok = session_token hs
      in case map_of hs DESTINATION_HEADER of
           None \<Rightarrow> (Inl KeyError, s1)
         | Some d \<Rightarrow>
             (Inr tok,
              sendFrame f
                (s1\<lparr>subscriptions :=
                      AList.update tok
                        \<lparr>destination = d, handler = h, ack = a, errorDestination = errDest\<rparr>
                        (subscriptions s1)\<rparr>)))"

text \<open>
  unsubscribe(subscription). The call of the session stands before the try block: what
  it raises reaches the caller. The try block covers the pop from _subscriptions only.
\<close>

definition unsubscribe :: "token \<Rightarrow> client \<Rightarrow> error option \<times> client" where
  "unsubscribe sub s =
     (case session_unsubscribe sub (session s) of
        Inl e \<Rightarrow> (Some e, s)
      | Inr r \<Rightarrow>
          (let s1 = s\<lparr>session := snd r\<rparr>;
               tok = session_token (headers (fst r))
           in case map_of (subscriptions s1) tok of
                None \<Rightarrow>
                  (None, log (LogWarning ''Cannot unsubscribe (subscription id unknown)'') s1)
              | Some x \<Rightarrow>
                  (None,
                   sendFrame (fst r)
                     (s1\<lparr>subscriptions := AList.delete tok (subscriptions s1)\<rparr>))))"

definition send :: "string \<Rightarrow> string \<Rightarrow> headers option \<Rightarrow> client \<Rightarrow> client" where
  "send dest msg hdrs s = sendFrame (commands_send dest msg hdrs) s"

definition u_ack :: "string \<Rightarrow> client \<Rightarrow> client" where
  "u_ack messageId s = sendFrame (commands_ack [(MESSAGE_ID_HEADER, messageId)]) s"

definition u_cancelConnectTimeout :: "client \<Rightarrow> client" where
  "u_cancelConnectTimeout s =
     (case connectTimeoutDelayedCall s of
        None \<Rightarrow> s
      | Some c \<Rightarrow> s\<lparr>connectTimeoutDelayedCall := None\<rparr>)"

definition u_handleConnectionLostDisconnect :: "client \<Rightarrow> client" where
  "u_handleConnectionLostDisconnect s =
     (case disconnectedDeferred s of
        None \<Rightarrow> s
      | Some d \<Rightarrow>
          (let s1 = (if \<not> disconnecting s
                     then s\<lparr>disconnectError := Some StompConnectionError\<rparr> else s);
               s2 = (case disconnectError s1 of
                       Some e \<Rightarrow> (fire d (Errback e) s1)\<lparr>disconnectError := None\<rparr>
                     | None \<Rightarrow> fire d Callback s1)
           in s2\<lparr>disconnectedDeferred := None\<rparr>))"

definition u_handleConnectionLostConnect :: "client \<Rightarrow> client" where
  "u_handleConnectionLostConnect s =
     (case connectedDeferred s of
        None \<Rightarrow> s
      | Some d \<Rightarrow>
          (case connectError s of
             Some e \<Rightarrow> (fire d (Errback e) (s\<lparr>connectError := None\<rparr>))\<lparr>connectedDeferred := None\<rparr>
           | None \<Rightarrow>
               (fire d (Errback StompConnectionError)
                  (log (LogError ''Connection lost before connection was established'') s))
               \<lparr>connectedDeferred := None\<rparr>))"

definition connectionLost :: "client \<Rightarrow> client" where
  "connectionLost s =
     u_handleConnectionLostDisconnect (u_handleConnectionLostConnect (u_cancelConnectTimeout s))"

definition u_handlerFinished :: "string \<Rightarrow> client \<Rightarrow> error option \<times> client" where
  "u_handlerFinished messageId s =
     (if messageId \<in> activeHandlers s
      then (None, s\<lparr>activeHandlers := activeHandlers s - {messageId}\<rparr>)
      else (Some KeyError, s))"

definition u_handlerStarted :: "string \<Rightarrow> client \<Rightarrow> error option \<times> client" where
  "u_handlerStarted messageId s =
     (if messageId \<in> activeHandlers s
      then (Some (StompProtocolError ''Duplicate message received''), s)
      else (None, s\<lparr>activeHandlers := insert messageId (activeHandlers s)\<rparr>))"

text \<open>
  _messageHandlerFailed(failure, messageId, msg, errDest). "if errDest" is false for
  None and for the empty string.
\<close>

definition u_messageHandlerFailed ::
  "error \<Rightarrow> string \<Rightarrow> frame \<Rightarrow> string option \<Rightarrow> client \<Rightarrow> client" where
  "u_messageHandlerFailed failure messageId msg errDest s =
     (let s0 = log (LogError ''Error in message handler'') s
      in case (if errDest = Some [] then None else errDest) of
           Some d \<Rightarrow>
             (let errorMessage = cloneStompMessage msg True;
                  s1 = send d (body errorMessage) (Some (headers errorMessage)) s0;
                  s2 = u_ack messageId s1
              in if \<not> alwaysDisconnectOnUnhandledMsg s2 then s2
                 else snd (disconnect (Some failure) s2))
         | None \<Rightarrow> snd (disconnect (Some failure) s0))"

definition u_connectTimeout :: "nat \<Rightarrow> client \<Rightarrow> client" where
  "u_connectTimeout timeout s =
     loseConnection
       ((log (LogError ''Connect command timed out'') s)
          \<lparr>connectTimeoutDelayedCall := None, connectError := Some StompConnectTimeout\<rparr>)"

text \<open>
  _replay: the loop over the subscriptions the session gives back; an exception of
  subscribe ends it.
\<close>

fun replay_loop ::
  "(string \<times> headers \<times> subscribe_context) list \<Rightarrow> client \<Rightarrow> error option \<times> client" where
  "replay_loop [] s = (None, s)"
| "replay_loop (x # rest) s =
     (case subscribe (fst x) (ctx_handler (snd (snd x))) (Some (fst (snd x)))
             (ctx_kwargs (snd (snd x))) s of
        (Inl e, s1) \<Rightarrow> (Some e, s1)
      | (Inr tok, s1) \<Rightarrow> replay_loop rest s1)"

definition u_replay :: "client \<Rightarrow> error option \<times> client" where
  "u_replay s =
     (let r = session_replay (session s)
      in replay_loop (fst r) (s\<lparr>session := snd r\<rparr>))"

text \<open>
  _handleConnected(msg). self._connectedDeferred.callback(self) on None is an
  AttributeError; by then the timeout is cancelled, the disconnected Deferred created
  and the subscriptions replayed.
\<close>

definition u_handleConnected :: "frame \<Rightarrow> client \<Rightarrow> error option \<times> client" where
  "u_handleConnected msg s =
     (let s1 = u_cancelConnectTimeout s;
          d = nextDeferred s1;
          s2 = s1\<lparr>disconnectedDeferred := Some d, nextDeferred := Suc d\<rparr>
      in case u_replay s2 of
           (Some e, s3) \<Rightarrow> (Some e, s3)
         | (None, s3) \<Rightarrow>
             (case connectedDeferred s3 of
                None \<Rightarrow> (Some AttributeError, s3)
              | Some c \<Rightarrow> (None, (fire c Callback s3)\<lparr>connectedDeferred := None\<rparr>)))"

text \<open>
  _finish: the callback of the Deferred of _finishHandlers is the lambda that disconnect
  added, so firing it runs _disconnect; the attribute is cleared afterwards.
\<close>

definition u_finish :: "client \<Rightarrow> client" where
  "u_finish s =
     (case finishedHandlersDeferred s of
        None \<Rightarrow> s
      | Some d \<Rightarrow>
          if u_handlersInProgress s then s
          else (u_disconnect (fire d Callback s))\<lparr>finishedHandlersDeferred := None\<rparr>)"

definition u_postProcessMessage :: "string \<Rightarrow> client \<Rightarrow> error option \<times> client" where
  "u_postProcessMessage messageId s =
     (case u_handlerFinished messageId s of
        (Some e, s1) \<Rightarrow> (Some e, s1)
      | (None, s1) \<Rightarrow> (None, u_finish s1))"

definition u_isClientAck :: "subscription \<Rightarrow> bool" where
  "u_isClientAck sub = (ack sub \<in> CLIENT_ACK_MODES)"

text \<open>
  The part of _handleMessage after the yield: the except branch when the handler
  failed, the else branch when it succeeded, and the finally branch. It runs at once
  when the Deferred of the handler has fired already, and later otherwise.
\<close>

definition u_handleMessage_resume ::
  "string \<Rightarrow> frame \<Rightarrow> subscription \<Rightarrow> error option \<Rightarrow> client \<Rightarrow> deferred_state \<times> client" where
  "u_handleMessage_resume messageId msg sub outcome s =
     (let s1 = (case outcome of
                  Some e \<Rightarrow> u_messageHandlerFailed e messageId msg (errorDestination sub) s
                | None \<Rightarrow> if u_isClientAck sub then u_ack messageId s else s)
      in case u_postProcessMessage messageId s1 of
           (Some e, s2) \<Rightarrow> (Failed e, s2)
         | (None, s2) \<Rightarrow> (Succeeded, s2))"

text \<open>
  _handleMessage(msg), up to the yield. An exception raised in the generator (the
  KeyError of a missing message-id header, the StompProtocolError of _handlerStarted)
  fails the Deferred that inlineCallbacks returns. The bare except around the lookup
  of the subscription catches the KeyError of an unknown token.
\<close>

definition u_handleMessage :: "frame \<Rightarrow> client \<Rightarrow> deferred_state \<times> client" where
  "u_handleMessage msg s =
     (case map_of (headers msg) MESSAGE_ID_HEADER of
        None \<Rightarrow> (Failed KeyError, s)
      | Some messageId \<Rightarrow>
          (case map_of (subscriptions s) (session_token (headers msg)) of
             None \<Rightarrow>
               (Succeeded, log (LogWarning ''Ignoring STOMP message (no handler found)'') s)
           | Some sub \<Rightarrow>
               if disconnecting s then (Succeeded, s)
               else (case u_handlerStarted messageId s of
                       (Some e, s1) \<Rightarrow> (Failed e, s1)
                     | (None, s1) \<Rightarrow>
                         (case handler sub msg of
                            ReturnedDeferred \<Rightarrow>
                              (Pending, s1\<lparr>suspended := suspended s1 @ [(messageId, msg, sub)]\<rparr>)
                          | Returned \<Rightarrow> u_handleMessage_resume messageId msg sub None s1
                          | Raised e \<Rightarrow> u_handleMessage_resume messageId msg sub (Some e) s1))))"

text \<open>
  The Deferred of a handler fires: the generator that waits for it is taken out of
  \<open>suspended\<close> and goes on after its yield. Without such a generator nothing happens.
\<close>

fun take_suspended ::
  "string \<Rightarrow> (string \<times> frame \<times> subscription) list \<Rightarrow>
   ((string \<times> frame \<times> subscription) \<times> (string \<times> frame \<times> subscription) list) option" where
  "take_suspended messageId [] = None"
| "take_suspended messageId (g # gs) =
     (if fst g = messageId then Some (g, gs)
      else (case take_suspended messageId gs of
              None \<Rightarrow> None
            | Some (x, rest) \<Rightarrow> Some (x, g # rest)))"

definition handlerFires :: "string \<Rightarrow> error option \<Rightarrow> client \<Rightarrow> deferred_state \<times> client" where
  "handlerFires messageId outcome s =
     (case take_suspended messageId (suspended s) of
        None \<Rightarrow> (Pending, s)
      | Some (g, rest) \<Rightarrow>
          u_handleMessage_resume (fst g) (fst (snd g)) (snd (snd g)) outcome
            (s\<lparr>suspended := rest\<rparr>))"

fun is_substring :: "string \<Rightarrow> string \<Rightarrow> bool" where
  "is_substring p [] = (p = [])"
| "is_substring p (c # cs) = (take (length p) (c # cs) = p \<or> is_substring p cs)"

definition u_handleError :: "frame \<Rightarrow> client \<Rightarrow> client" where
  "u_handleError msg s =
     (if connectedDeferred s \<noteq> None
      then (loseConnection s)
             \<lparr>connectError :=
                Some (StompProtocolError ''STOMP error message received while trying to connect'')\<rparr>
      else if is_substring ''Unexpected ACK received for message-id''
                (case map_of (headers msg) ''message'' of None \<Rightarrow> [] | Some m \<Rightarrow> m)
           then s
           else snd (disconnect None
                  (s\<lparr>disconnectError := Some (StompProtocolError ''STOMP error message received'')\<rparr>)))"

definition u_handleReceipt :: "frame \<Rightarrow> client \<Rightarrow> client" where
  "u_handleReceipt msg s = s"

text \<open>
  One round of the loop of dataReceived: the handler is looked up in _handlers by the
  command; an unknown command raises StompFrameError. The Deferred that _handleMessage
  returns is dropped, so its failure does not end the loop.
\<close>

definition dispatch :: "frame \<Rightarrow> client \<Rightarrow> error option \<times> client" where
  "dispatch message s =
     (if cmd message = ''MESSAGE'' then (None, snd (u_handleMessage message s))
      else if cmd message = ''CONNECTED'' then u_handleConnected message s
      else if cmd message = ''ERROR'' then (None, u_handleError message s)
      else if cmd message = ''RECEIPT'' then (None, u_handleReceipt message s)
      else (Some StompFrameError, s))"

fun dataReceived_loop :: "frame list \<Rightarrow> client \<Rightarrow> error option \<times> client" where
  "dataReceived_loop [] s = (None, s\<lparr>parser := []\<rparr>)"
| "dataReceived_loop (message # rest) s =
     (case dispatch message (s\<lparr>parser := rest\<rparr>) of
        (Some e, s1) \<Rightarrow> (Some e, s1)
      | (None, s1) \<Rightarrow> dataReceived_loop rest s1)"

text \<open>
  dataReceived(data): the data is given as the frames the parser makes of it; they join
  the frames the parser still holds.
\<close>

definition dataReceived :: "frame list \<Rightarrow> client \<Rightarrow> error option \<times> client" where
  "dataReceived frames s = dataReceived_loop (parser s @ frames) s"

subsection \<open>Runs of the client\<close>

text \<open>
  What can happen to a client: a call of a method by the user, data or the loss of the
  connection from the transport, the connect timeout from the reactor, and the Deferred
  of a handler firing with a result (None) or a failure. An exception that a call
  raises goes to the caller; the client keeps the state the call left.
\<close>

datatype event =
    Connect string string "nat option"
  | Disconnect "error option"
  | Subscribe string handler "headers option" kwargs
  | Unsubscribe token
  | Send string string "headers option"
  | DataReceived "frame list"
  | ConnectionLost
  | ConnectTimeout nat
  | HandlerFires string "error option"

fun step :: "event \<Rightarrow> client \<Rightarrow> client" where
  "step (Connect login passcode timeout) s = snd (connect login passcode timeout s)"
| "step (Disconnect failure) s = snd (disconnect failure s)"
| "step (Subscribe dest h hdrs kw) s = snd (subscribe dest h hdrs kw s)"
| "step (Unsubscribe tok) s = snd (unsubscribe tok s)"
| "step (Send dest msg hdrs) s = send dest msg hdrs s"
| "step (DataReceived frames) s = snd (dataReceived frames s)"
| "step ConnectionLost s = connectionLost s"
| "step (ConnectTimeout t) s = u_connectTimeout t s"
| "step (HandlerFires messageId outcome) s = snd (handlerFires messageId outcome s)"

definition run :: "event list \<Rightarrow> client \<Rightarrow> client" where
  "run es s = fold step es s"

text \<open>The frames written to the transport between a state and a later one.\<close>

definition new_frames :: "client \<Rightarrow> client \<Rightarrow> frame list" where
  "new_frames s s' = drop (length (written s)) (written s')"

text \<open>The DISCONNECT frames written to the transport so far.\<close>

definition disconnect_frames :: "client \<Rightarrow> frame list" where
  "disconnect_frames s = [f \<leftarrow> written s. cmd f = ''DISCONNECT'']"

text \<open>
  Between two states of a disconnecting client: no handler was started, and as long as
  a handler is active no DISCONNECT frame was written.
\<close>

definition still_draining :: "client \<Rightarrow> client \<Rightarrow> bool" where
  "still_draining s s' =
     (disconnecting s' \<and> activeHandlers s' \<subseteq> activeHandlers s \<and>
      (activeHandlers s' \<noteq> {} \<longrightarrow> disconnect_frames s' = disconnect_frames s))"

text \<open>
  An event that hands no CONNECTED frame to the client, and a client that has handled
  none and whose parser holds none.
\<close>

fun no_connected :: "event \<Rightarrow> bool" where
  "no_connected (DataReceived frames) = (\<forall>f \<in> set frames. cmd f \<noteq> ''CONNECTED'')"
| "no_connected e = True"

definition never_connected :: "client \<Rightarrow> bool" where
  "never_connected s =
     (disconnectedDeferred s = None \<and> (\<forall>f \<in> set (parser s). cmd f \<noteq> ''CONNECTED''))"

text \<open>The event is the Deferred of the handler of the message firing.\<close>

fun fires :: "string \<Rightarrow> event \<Rightarrow> bool" where
  "fires m (HandlerFires m' outcome) = (m' = m)"
| "fires m e = False"

text \<open>
  The callback and errback calls made on one Deferred. A Deferred is guarded when it
  exists and is not the one the drain waits for; detached when it is in none of the
  three attributes that hold a Deferred.
\<close>

definition fired_of :: "nat \<Rightarrow> client \<Rightarrow> (nat \<times> firing) list" where
  "fired_of c s = [x \<leftarrow> fired s. fst x = c]"

definition guarded :: "nat \<Rightarrow> client \<Rightarrow> bool" where
  "guarded c s = (c < nextDeferred s \<and> finishedHandlersDeferred s \<noteq> Some c)"

definition detached :: "nat \<Rightarrow> client \<Rightarrow> bool" where
  "detached c s =
     (guarded c s \<and> disconnectedDeferred s \<noteq> Some c \<and> connectedDeferred s \<noteq> Some c)"

text \<open>
  The connect Deferred is pending and the StompConnectTimeout is the recorded connect
  error; in \<open>timed_out\<close> the parser holds no CONNECTED and no ERROR frame either.
\<close>

definition pending_timeout :: "nat \<Rightarrow> client \<Rightarrow> bool" where
  "pending_timeout c s =
     (guarded c s \<and> disconnectedDeferred s \<noteq> Some c \<and> connectedDeferred s = Some c \<and>
      connectError s = Some StompConnectTimeout)"



subsection \<open>Example clients\<close>

text \<open>
  A handler that returns a Deferred which has not fired, a MESSAGE frame for the
  subscription with the id 0 to /q, and clients in the states the examples need.
\<close>

definition ex_handler_later :: handler where
  "ex_handler_later = (\<lambda>m. ReturnedDeferred)"

definition ex_connected :: frame where
  "ex_connected = \<lparr>cmd = ''CONNECTED'', headers = [(''session'', ''s1'')], body = []\<rparr>"

definition ex_message :: frame where
  "ex_message =
     \<lparr>cmd = ''MESSAGE'',
      headers = [(''message-id'', ''1''), (''destination'', ''/q''), (''id'', ''0'')],
      body = ''x''\<rparr>"

definition ex_subscription :: subscription where
  "ex_subscription =
     \<lparr>destination = ''/q'', handler = ex_handler_later, ack = ''client'',
      errorDestination = None\<rparr>"

definition ex_subscribed :: client where
  "ex_subscribed =
     run [Connect ''user'' ''secret'' None, DataReceived [ex_connected],
          Subscribe ''/q'' ex_handler_later None []] (init None False)"

definition ex_inflight :: client where
  "ex_inflight = run [DataReceived [ex_message]] ex_subscribed"

definition ex_draining :: client where
  "ex_draining = run [Disconnect None] ex_inflight"

text \<open>
  A MESSAGE frame with the active message-id 1 for a destination nobody subscribed to,
  and a fresh client built on the session of another one (as for a failover), before
  any CONNECTED frame.
\<close>

definition ex_stray :: frame where
  "ex_stray =
     \<lparr>cmd = ''MESSAGE'',
      headers = [(''message-id'', ''1''), (''destination'', ''/other''), (''id'', ''7'')],
      body = ''y''\<rparr>"

definition ex_failover :: client where
  "ex_failover = init (Some (session ex_subscribed)) False"

text \<open>
  Handlers that return and that raise at once, a client whose subscription has the ack
  mode auto, and one whose subscription has an error destination.
\<close>

definition ex_handler_now :: handler where
  "ex_handler_now = (\<lambda>m. Returned)"

definition ex_handler_raise :: handler where
  "ex_handler_raise = (\<lambda>m. Raised (HandlerError ''boom''))"

definition ex_auto :: client where
  "ex_auto =
     run [Connect ''user'' ''secret'' None, DataReceived [ex_connected],
          Subscribe ''/q'' ex_handler_now (Some [(''ack'', ''auto'')]) []] (init None False)"

definition ex_recovering :: client where
  "ex_recovering =
     run [Connect ''user'' ''secret'' None, DataReceived [ex_connected],
          Subscribe ''/q'' ex_handler_raise None [(''errorDestination'', ''/errors'')]]
       (init None False)"

text \<open>
  A second MESSAGE frame for the subscription, and the client with the handlers of both
  messages running.
\<close>

definition ex_message2 :: frame where
  "ex_message2 =
     \<lparr>cmd = ''MESSAGE'',
      headers = [(''message-id'', ''2''), (''destination'', ''/q''), (''id'', ''0'')],
      body = ''z''\<rparr>"

definition ex_two_inflight :: client where
  "ex_two_inflight = run [DataReceived [ex_message, ex_message2]] ex_subscribed"

section \<open>Properties\<close>

lemmas eval_defs =
  run_def init_def StompSession_def connect_def u_connect_def sendFrame_def
  commands_connect_def dataReceived_def dispatch_def u_handleConnected_def
  u_cancelConnectTimeout_def u_replay_def session_replay_def fire_def subscribe_def
  session_subscribe_def session_token_def DESTINATION_HEADER_def ID_HEADER_def
  ACK_HEADER_def DEFAULT_ACK_MODE_def decimal.simps digit_def MESSAGE_ID_HEADER_def
  u_handleMessage_def u_handlerStarted_def Let_def disconnect_def u_finishHandlers_def
  u_handlersInProgress_def u_disconnect_def loseConnection_def commands_disconnect_def
  log_def

lemmas ex_defs =
  ex_handler_later_def ex_connected_def ex_message_def ex_subscription_def
  ex_subscribed_def ex_inflight_def ex_draining_def ex_stray_def ex_message2_def ex_two_inflight_def
  ex_failover_def ex_handler_now_def ex_handler_raise_def ex_auto_def ex_recovering_def

subsection \<open>Messages that are dropped\<close>

text \<open>
  C10. A MESSAGE frame (it carries a message-id, as the claim says: without that header
  line 283 raises KeyError before anything is looked up) whose token matches no entry
  of _subscriptions, or that arrives while the client is disconnecting, is dropped:
  _handleMessage returns without an exception, and the client is left as it was (only
  the warning "no handler found" goes to the logger), whether or not the message-id
  is in the set of active handlers.
\<close>

theorem unmatched_or_disconnecting_message_dropped:
  assumes "map_of (headers msg) MESSAGE_ID_HEADER = Some messageId"
      and "map_of (subscriptions s) (session_token (headers msg)) = None \<or> disconnecting s"
  shows "fst (u_handleMessage msg s) = Succeeded \<and>
         (snd (u_handleMessage msg s))\<lparr>logged := logged s\<rparr> = s"
  using assms by (auto simp add: u_handleMessage_def log_def split: option.splits)

text \<open>
  The examples: with the handler of message 1 still running, a MESSAGE with the id 1 for
  an unknown subscription, and the MESSAGE of the subscription again while the client
  is disconnecting.
\<close>

theorem unmatched_or_disconnecting_message_dropped_witness:
  "map_of (headers ex_stray) MESSAGE_ID_HEADER = Some ''1'' \<and>
   map_of (subscriptions ex_inflight) (session_token (headers ex_stray)) = None \<and>
   ''1'' \<in> activeHandlers ex_inflight \<and>
   fst (u_handleMessage ex_stray ex_inflight) = Succeeded \<and>
   (snd (u_handleMessage ex_stray ex_inflight))\<lparr>logged := logged ex_inflight\<rparr> = ex_inflight \<and>
   map_of (headers ex_message) MESSAGE_ID_HEADER = Some ''1'' \<and>
   map_of (subscriptions ex_draining) (session_token (headers ex_message)) =
     Some ex_subscription \<and>
   disconnecting ex_draining \<and>
   ''1'' \<in> activeHandlers ex_draining \<and>
   fst (u_handleMessage ex_message ex_draining) = Succeeded \<and>
   (snd (u_handleMessage ex_message ex_draining))\<lparr>logged := logged ex_draining\<rparr> = ex_draining"
proof -
  have a: "map_of (headers ex_stray) MESSAGE_ID_HEADER = Some ''1''"
    by (simp add: ex_stray_def MESSAGE_ID_HEADER_def)
  have b: "map_of (subscriptions ex_inflight) (session_token (headers ex_stray)) = None"
    by (simp add: ex_defs eval_defs)
  have c: "''1'' \<in> activeHandlers ex_inflight"
    by (simp add: ex_defs eval_defs)
  have d: "map_of (headers ex_message) MESSAGE_ID_HEADER = Some ''1''"
    by (simp add: ex_message_def MESSAGE_ID_HEADER_def)
  have e: "map_of (subscriptions ex_draining) (session_token (headers ex_message)) =
             Some ex_subscription"
    by (simp add: ex_defs eval_defs)
  have f: "disconnecting ex_draining"
    by (simp add: ex_defs eval_defs)
  have g: "''1'' \<in> activeHandlers ex_draining"
    by (simp add: ex_defs eval_defs)
  show ?thesis
    using a b c d e f g
      unmatched_or_disconnecting_message_dropped [OF a, of ex_inflight]
      unmatched_or_disconnecting_message_dropped [OF d, of ex_draining]
    by simp
qed

subsection \<open>disconnect while disconnecting\<close>

text \<open>
  C7, as the code has it. A call of disconnect(cause) on a client whose disconnecting
  flag is set returns the disconnected Deferred and changes nothing but the recorded
  disconnect error: a cause that is given replaces it, also when one was recorded
  before. No second drain starts and nothing is written.
\<close>

theorem disconnect_while_disconnecting:
  assumes "disconnecting s"
  shows "disconnect cause s =
           (disconnectedDeferred s,
            case cause of None \<Rightarrow> s | Some e \<Rightarrow> s\<lparr>disconnectError := Some e\<rparr>)"
  using assms by (simp add: disconnect_def Let_def split: option.splits)

theorem disconnect_while_disconnecting_witness:
  "disconnecting ex_draining \<and>
   disconnect (Some (HandlerError ''late'')) ex_draining =
     (disconnectedDeferred ex_draining,
      ex_draining\<lparr>disconnectError := Some (HandlerError ''late'')\<rparr>)"
proof -
  have a: "disconnecting ex_draining"
    by (simp add: ex_defs eval_defs)
  show ?thesis
    using a disconnect_while_disconnecting [OF a, of "Some (HandlerError ''late'')"] by simp
qed

text \<open>
  C7 as the claim states it fails: a second disconnect with another cause overwrites the
  cause that the first one recorded.
\<close>

theorem disconnect_overwrites_cause:
  "disconnecting (snd (disconnect (Some (HandlerError ''first'')) (init None False))) \<and>
   disconnectError (snd (disconnect (Some (HandlerError ''first'')) (init None False))) =
     Some (HandlerError ''first'') \<and>
   disconnectError
     (snd (disconnect (Some (HandlerError ''second''))
        (snd (disconnect (Some (HandlerError ''first'')) (init None False))))) =
     Some (HandlerError ''second'')"
  by (simp add: eval_defs)

subsection \<open>unsubscribe\<close>

lemma session_token_token_headers: "session_token (token_headers tok) = tok"
  by (cases tok)
    (auto simp add: session_token_def token_headers_def DESTINATION_HEADER_def ID_HEADER_def
      split: option.splits)

text \<open>
  What unsubscribe does for a token that the session has a record of, so that it
  builds the UNSUBSCRIBE frame: when the token has no entry in _subscriptions, no
  exception reaches the caller, the warning is logged and nothing is written; when it
  has one, the entry is removed and the UNSUBSCRIBE frame is written. In both cases
  the session forgets its record.
\<close>

theorem unsubscribe_with_session_record:
  assumes "map_of (recorded (session s)) tok = Some r"
  shows "(map_of (subscriptions s) tok = None \<longrightarrow>
            unsubscribe tok s =
              (None,
               log (LogWarning ''Cannot unsubscribe (subscription id unknown)'')
                 (s\<lparr>session := (session s)\<lparr>recorded := AList.delete tok (recorded (session s))\<rparr>\<rparr>))) \<and>
         (map_of (subscriptions s) tok \<noteq> None \<longrightarrow>
            unsubscribe tok s =
              (None,
               sendFrame \<lparr>cmd = ''UNSUBSCRIBE'', headers = token_headers tok, body = []\<rparr>
                 (s\<lparr>session := (session s)\<lparr>recorded := AList.delete tok (recorded (session s))\<rparr>,
                    subscriptions := AList.delete tok (subscriptions s)\<rparr>)))"
  using assms
  by (auto simp add: unsubscribe_def session_unsubscribe_def session_token_token_headers Let_def)

text \<open>
  The examples: the token of /q on a fresh client that took over the session (no local
  entry), and on the client that subscribed.
\<close>

theorem unsubscribe_with_session_record_witness:
  "map_of (recorded (session ex_failover)) (Some ''/q'', Some ''0'') \<noteq> None \<and>
   map_of (subscriptions ex_failover) (Some ''/q'', Some ''0'') = None \<and>
   fst (unsubscribe (Some ''/q'', Some ''0'') ex_failover) = None \<and>
   written (snd (unsubscribe (Some ''/q'', Some ''0'') ex_failover)) = written ex_failover \<and>
   logged (snd (unsubscribe (Some ''/q'', Some ''0'') ex_failover)) =
     [LogWarning ''Cannot unsubscribe (subscription id unknown)''] \<and>
   map_of (recorded (session ex_subscribed)) (Some ''/q'', Some ''0'') \<noteq> None \<and>
   map_of (subscriptions ex_subscribed) (Some ''/q'', Some ''0'') = Some ex_subscription \<and>
   fst (unsubscribe (Some ''/q'', Some ''0'') ex_subscribed) = None \<and>
   subscriptions (snd (unsubscribe (Some ''/q'', Some ''0'') ex_subscribed)) = [] \<and>
   new_frames ex_subscribed (snd (unsubscribe (Some ''/q'', Some ''0'') ex_subscribed)) =
     [\<lparr>cmd = ''UNSUBSCRIBE'', headers = [(''destination'', ''/q''), (''id'', ''0'')], body = []\<rparr>]"
proof -
  obtain r where a: "map_of (recorded (session ex_failover)) (Some ''/q'', Some ''0'') = Some r"
    by (simp add: ex_defs eval_defs)
  have b: "map_of (subscriptions ex_failover) (Some ''/q'', Some ''0'') = None"
    by (simp add: ex_failover_def init_def)
  have c: "logged ex_failover = []"
    by (simp add: ex_failover_def init_def)
  obtain r' where d: "map_of (recorded (session ex_subscribed)) (Some ''/q'', Some ''0'') = Some r'"
    by (simp add: ex_defs eval_defs)
  have e: "map_of (subscriptions ex_subscribed) (Some ''/q'', Some ''0'') = Some ex_subscription"
    by (simp add: ex_defs eval_defs)
  have f: "subscriptions ex_subscribed = [((Some ''/q'', Some ''0''), ex_subscription)]"
    by (simp add: ex_defs eval_defs)
  show ?thesis
    using a b c d e f
      unsubscribe_with_session_record [OF a]
      unsubscribe_with_session_record [OF d]
    by (simp add: log_def sendFrame_def new_frames_def token_headers_def AList.delete_eq
        DESTINATION_HEADER_def ID_HEADER_def)
qed

text \<open>
  C8. A call of unsubscribe with a token that has no entry in _subscriptions should
  raise nothing, log a warning and write no frame. On a fresh client it does not: the
  session, asked first and outside the try block, has no record of the token either,
  and its UnknownSubscription reaches the caller of unsubscribe; no warning is logged.
\<close>

theorem unsubscribe_unknown_to_session_raises:
  "map_of (subscriptions (init None False)) (Some ''/q'', Some ''0'') = None \<and>
   unsubscribe (Some ''/q'', Some ''0'') (init None False) =
     (Some UnknownSubscription, init None False)"
  by (simp add: unsubscribe_def session_unsubscribe_def init_def StompSession_def)

subsection \<open>What the methods leave unchanged\<close>

text \<open>
  For each method: the disconnected Deferred, the frames in the parser, the
  disconnecting flag, the set of active handlers and the DISCONNECT frames written,
  after the call.
\<close>

lemma cmd_commands [simp]:
  "cmd commands_disconnect = ''DISCONNECT''"
  "cmd (commands_ack h) = ''ACK''"
  "cmd (commands_send d m hs) = ''SEND''"
  "cmd (commands_connect l p) = ''CONNECT''"
  by (simp_all add: commands_disconnect_def commands_ack_def commands_send_def commands_connect_def)

lemma cmd_session_subscribe [simp]:
  "cmd (fst (session_subscribe dest hdrs ctx sess)) = ''SUBSCRIBE''"
  by (simp add: session_subscribe_def Let_def)

lemma destination_session_subscribe:
  "map_of (headers (fst (session_subscribe dest hdrs ctx sess))) DESTINATION_HEADER = Some dest"
  by (simp add: session_subscribe_def Let_def update_conv' DESTINATION_HEADER_def ID_HEADER_def)

lemma subscribe_ok: "\<exists>tok. fst (subscribe dest h hdrs kw s) = Inr tok"
  using destination_session_subscribe [of dest hdrs "\<lparr>ctx_handler = h, ctx_kwargs = kw\<rparr>" "session s"]
  by (cases "map_of (headers (fst (session_subscribe dest hdrs \<lparr>ctx_handler = h, ctx_kwargs = kw\<rparr> (session s)))) ACK_HEADER")
     (simp_all add: subscribe_def Let_def DESTINATION_HEADER_def ACK_HEADER_def)

lemma disconnect_frames_update [simp]:
  "disconnect_frames (s\<lparr>activeHandlers := a\<rparr>) = disconnect_frames s"
  "disconnect_frames (s\<lparr>suspended := x\<rparr>) = disconnect_frames s"
  "disconnect_frames (s\<lparr>parser := p\<rparr>) = disconnect_frames s"
  "disconnect_frames (s\<lparr>disconnectError := e\<rparr>) = disconnect_frames s"
  "disconnect_frames (s\<lparr>connectError := e\<rparr>) = disconnect_frames s"
  "disconnect_frames (s\<lparr>session := se\<rparr>) = disconnect_frames s"
  "disconnect_frames (s\<lparr>connectTimeoutDelayedCall := c\<rparr>) = disconnect_frames s"
  "disconnect_frames (s\<lparr>disconnectedDeferred := d\<rparr>) = disconnect_frames s"
  "disconnect_frames (s\<lparr>nextDeferred := n\<rparr>) = disconnect_frames s"
  "disconnect_frames (loseConnection s) = disconnect_frames s"
  "disconnect_frames (fire k r s) = disconnect_frames s"
  "disconnect_frames (s\<lparr>connectedDeferred := cd\<rparr>) = disconnect_frames s"
  by (simp_all add: disconnect_frames_def loseConnection_def fire_def)

lemma fields_connect [simp]:
  "disconnectedDeferred (snd (connect l p t s)) = disconnectedDeferred s"
  "parser (snd (connect l p t s)) = parser s"
  "disconnecting (snd (connect l p t s)) = disconnecting s"
  "activeHandlers (snd (connect l p t s)) = activeHandlers s"
  "disconnect_frames (snd (connect l p t s)) = disconnect_frames s"
  by (simp_all add: disconnect_frames_def connect_def u_connect_def sendFrame_def Let_def
      split: option.splits)

lemma fields_send [simp]:
  "disconnectedDeferred (send d m h s) = disconnectedDeferred s"
  "parser (send d m h s) = parser s"
  "disconnecting (send d m h s) = disconnecting s"
  "activeHandlers (send d m h s) = activeHandlers s"
  "disconnect_frames (send d m h s) = disconnect_frames s"
  by (simp_all add: disconnect_frames_def send_def sendFrame_def)

lemma fields_u_ack [simp]:
  "disconnectedDeferred (u_ack m s) = disconnectedDeferred s"
  "parser (u_ack m s) = parser s"
  "disconnecting (u_ack m s) = disconnecting s"
  "activeHandlers (u_ack m s) = activeHandlers s"
  "disconnect_frames (u_ack m s) = disconnect_frames s"
  by (simp_all add: disconnect_frames_def u_ack_def sendFrame_def)

lemma fields_log [simp]:
  "disconnectedDeferred (log e s) = disconnectedDeferred s"
  "parser (log e s) = parser s"
  "disconnecting (log e s) = disconnecting s"
  "activeHandlers (log e s) = activeHandlers s"
  "disconnect_frames (log e s) = disconnect_frames s"
  by (simp_all add: disconnect_frames_def log_def)

lemma fields_u_connectTimeout [simp]:
  "disconnectedDeferred (u_connectTimeout t s) = disconnectedDeferred s"
  "parser (u_connectTimeout t s) = parser s"
  "disconnecting (u_connectTimeout t s) = disconnecting s"
  "activeHandlers (u_connectTimeout t s) = activeHandlers s"
  "disconnect_frames (u_connectTimeout t s) = disconnect_frames s"
  by (simp_all add: disconnect_frames_def u_connectTimeout_def loseConnection_def log_def)

lemma fields_subscribe [simp]:
  "disconnectedDeferred (snd (subscribe dest h hdrs kw s)) = disconnectedDeferred s"
  "parser (snd (subscribe dest h hdrs kw s)) = parser s"
  "disconnecting (snd (subscribe dest h hdrs kw s)) = disconnecting s"
  "activeHandlers (snd (subscribe dest h hdrs kw s)) = activeHandlers s"
  "disconnect_frames (snd (subscribe dest h hdrs kw s)) = disconnect_frames s"
  by (simp_all add: disconnect_frames_def subscribe_def Let_def sendFrame_def
      split: option.splits)

lemma fields_unsubscribe [simp]:
  "disconnectedDeferred (snd (unsubscribe tok s)) = disconnectedDeferred s"
  "parser (snd (unsubscribe tok s)) = parser s"
  "disconnecting (snd (unsubscribe tok s)) = disconnecting s"
  "activeHandlers (snd (unsubscribe tok s)) = activeHandlers s"
  "disconnect_frames (snd (unsubscribe tok s)) = disconnect_frames s"
  by (simp_all add: disconnect_frames_def unsubscribe_def session_unsubscribe_def Let_def
      sendFrame_def log_def split: option.splits sum.splits)

lemma fields_u_disconnect [simp]:
  "disconnectedDeferred (u_disconnect s) = disconnectedDeferred s"
  "parser (u_disconnect s) = parser s"
  "disconnecting (u_disconnect s) = disconnecting s"
  "activeHandlers (u_disconnect s) = activeHandlers s"
  by (simp_all add: u_disconnect_def Let_def sendFrame_def loseConnection_def)

lemma fields_disconnect [simp]:
  "disconnectedDeferred (snd (disconnect cause s)) = disconnectedDeferred s"
  "parser (snd (disconnect cause s)) = parser s"
  "disconnecting (snd (disconnect cause s))"
  "activeHandlers (snd (disconnect cause s)) = activeHandlers s"
  "disconnecting s \<Longrightarrow> disconnect_frames (snd (disconnect cause s)) = disconnect_frames s"
  by (simp_all add: disconnect_def Let_def u_finishHandlers_def disconnect_frames_def
      split: option.splits)

lemma fields_u_finish [simp]:
  "disconnectedDeferred (u_finish s) = disconnectedDeferred s"
  "parser (u_finish s) = parser s"
  "disconnecting (u_finish s) = disconnecting s"
  "activeHandlers (u_finish s) = activeHandlers s"
  "activeHandlers s \<noteq> {} \<Longrightarrow> disconnect_frames (u_finish s) = disconnect_frames s"
  by (simp_all add: u_finish_def u_handlersInProgress_def fire_def disconnect_frames_def
      split: option.splits)

lemma fields_u_postProcessMessage [simp]:
  "disconnectedDeferred (snd (u_postProcessMessage m s)) = disconnectedDeferred s"
  "parser (snd (u_postProcessMessage m s)) = parser s"
  "disconnecting (snd (u_postProcessMessage m s)) = disconnecting s"
  "activeHandlers (snd (u_postProcessMessage m s)) = activeHandlers s - {m}"
  "activeHandlers s - {m} \<noteq> {} \<Longrightarrow>
     disconnect_frames (snd (u_postProcessMessage m s)) = disconnect_frames s"
  by (auto simp add: u_postProcessMessage_def u_handlerFinished_def)

lemma fields_u_messageHandlerFailed [simp]:
  "disconnectedDeferred (u_messageHandlerFailed e m msg errDest s) = disconnectedDeferred s"
  "parser (u_messageHandlerFailed e m msg errDest s) = parser s"
  "activeHandlers (u_messageHandlerFailed e m msg errDest s) = activeHandlers s"
  "disconnecting s \<Longrightarrow> disconnecting (u_messageHandlerFailed e m msg errDest s)"
  "disconnecting s \<Longrightarrow>
     disconnect_frames (u_messageHandlerFailed e m msg errDest s) = disconnect_frames s"
  by (simp_all add: u_messageHandlerFailed_def Let_def split: option.splits)

lemma snd_resume:
  "snd (u_handleMessage_resume messageId msg sub outcome s) =
     snd (u_postProcessMessage messageId
       (case outcome of
          Some e \<Rightarrow> u_messageHandlerFailed e messageId msg (errorDestination sub) s
        | None \<Rightarrow> if u_isClientAck sub then u_ack messageId s else s))"
  by (simp add: u_handleMessage_resume_def Let_def split: prod.splits option.splits)

lemma fields_u_handleMessage_resume [simp]:
  "disconnectedDeferred (snd (u_handleMessage_resume m msg sub outcome s)) = disconnectedDeferred s"
  "parser (snd (u_handleMessage_resume m msg sub outcome s)) = parser s"
  "activeHandlers (snd (u_handleMessage_resume m msg sub outcome s)) = activeHandlers s - {m}"
  "disconnecting s \<Longrightarrow> disconnecting (snd (u_handleMessage_resume m msg sub outcome s))"
  "disconnecting s \<Longrightarrow> activeHandlers s - {m} \<noteq> {} \<Longrightarrow>
     disconnect_frames (snd (u_handleMessage_resume m msg sub outcome s)) = disconnect_frames s"
  by (simp_all add: snd_resume split: option.splits)

lemma fields_u_handleMessage [simp]:
  "disconnectedDeferred (snd (u_handleMessage msg s)) = disconnectedDeferred s"
  "parser (snd (u_handleMessage msg s)) = parser s"
  by (simp_all add: u_handleMessage_def u_handlerStarted_def
      split: option.splits handler_result.splits)

lemma u_handleMessage_disconnecting [simp]:
  "disconnecting s \<Longrightarrow> disconnecting (snd (u_handleMessage msg s))"
  "disconnecting s \<Longrightarrow> activeHandlers (snd (u_handleMessage msg s)) = activeHandlers s"
  "disconnecting s \<Longrightarrow> disconnect_frames (snd (u_handleMessage msg s)) = disconnect_frames s"
  by (simp_all add: u_handleMessage_def split: option.splits)

lemma disconnect_frames_resume:
  "disconnecting s \<Longrightarrow> x \<in> activeHandlers s \<Longrightarrow> x \<noteq> m \<Longrightarrow>
     disconnect_frames (snd (u_handleMessage_resume m msg sub outcome s)) = disconnect_frames s"
  by (rule fields_u_handleMessage_resume(5)) auto

lemma fields_handlerFires [simp]:
  "disconnectedDeferred (snd (handlerFires m outcome s)) = disconnectedDeferred s"
  "parser (snd (handlerFires m outcome s)) = parser s"
  "disconnecting s \<Longrightarrow> disconnecting (snd (handlerFires m outcome s))"
  "activeHandlers (snd (handlerFires m outcome s)) \<subseteq> activeHandlers s"
  "disconnecting s \<Longrightarrow> activeHandlers (snd (handlerFires m outcome s)) \<noteq> {} \<Longrightarrow>
     disconnect_frames (snd (handlerFires m outcome s)) = disconnect_frames s"
  by (auto simp add: handlerFires_def disconnect_frames_resume split: option.splits prod.splits)

lemma fields_u_handleError [simp]:
  "disconnectedDeferred (u_handleError msg s) = disconnectedDeferred s"
  "parser (u_handleError msg s) = parser s"
  "disconnecting s \<Longrightarrow> disconnecting (u_handleError msg s)"
  "activeHandlers (u_handleError msg s) = activeHandlers s"
  "disconnecting s \<Longrightarrow> disconnect_frames (u_handleError msg s) = disconnect_frames s"
  by (simp_all add: u_handleError_def) (simp_all add: loseConnection_def)

lemma fields_u_handleConnectionLostConnect [simp]:
  "disconnectedDeferred (u_handleConnectionLostConnect s) = disconnectedDeferred s"
  "parser (u_handleConnectionLostConnect s) = parser s"
  "disconnecting (u_handleConnectionLostConnect s) = disconnecting s"
  "activeHandlers (u_handleConnectionLostConnect s) = activeHandlers s"
  "written (u_handleConnectionLostConnect s) = written s"
  by (simp_all add: u_handleConnectionLostConnect_def fire_def log_def split: option.splits)

lemma fields_u_handleConnectionLostDisconnect [simp]:
  "disconnectedDeferred (u_handleConnectionLostDisconnect s) = None"
  "parser (u_handleConnectionLostDisconnect s) = parser s"
  "disconnecting (u_handleConnectionLostDisconnect s) = disconnecting s"
  "activeHandlers (u_handleConnectionLostDisconnect s) = activeHandlers s"
  "written (u_handleConnectionLostDisconnect s) = written s"
  by (simp_all add: u_handleConnectionLostDisconnect_def fire_def Let_def split: option.splits)

lemma fields_connectionLost [simp]:
  "disconnectedDeferred (connectionLost s) = None"
  "parser (connectionLost s) = parser s"
  "disconnecting (connectionLost s) = disconnecting s"
  "activeHandlers (connectionLost s) = activeHandlers s"
  "disconnect_frames (connectionLost s) = disconnect_frames s"
  by (simp_all add: connectionLost_def disconnect_frames_def [of "u_handleConnectionLostDisconnect _"])
     (simp add: u_cancelConnectTimeout_def disconnect_frames_def split: option.splits)+

lemma fields_replay_loop [simp]:
  "parser (snd (replay_loop xs s)) = parser s"
  "disconnecting (snd (replay_loop xs s)) = disconnecting s"
  "activeHandlers (snd (replay_loop xs s)) = activeHandlers s"
  "disconnect_frames (snd (replay_loop xs s)) = disconnect_frames s"
  by (induction xs arbitrary: s; simp split: prod.splits sum.splits;
      metis fields_subscribe snd_conv)+

lemma fields_u_cancelConnectTimeout [simp]:
  "parser (u_cancelConnectTimeout s) = parser s"
  "disconnecting (u_cancelConnectTimeout s) = disconnecting s"
  "activeHandlers (u_cancelConnectTimeout s) = activeHandlers s"
  "disconnect_frames (u_cancelConnectTimeout s) = disconnect_frames s"
  by (simp_all add: u_cancelConnectTimeout_def split: option.splits)

lemma fields_u_replay [simp]:
  "parser (snd (u_replay s)) = parser s"
  "disconnecting (snd (u_replay s)) = disconnecting s"
  "activeHandlers (snd (u_replay s)) = activeHandlers s"
  "disconnect_frames (snd (u_replay s)) = disconnect_frames s"
  by (simp_all add: u_replay_def Let_def)

lemma u_handleConnected_cases:
  obtains "snd (u_handleConnected msg s) =
             snd (u_replay ((u_cancelConnectTimeout s)
               \<lparr>disconnectedDeferred := Some (nextDeferred (u_cancelConnectTimeout s)),
                nextDeferred := Suc (nextDeferred (u_cancelConnectTimeout s))\<rparr>))"
  | c where "snd (u_handleConnected msg s) =
             (fire c Callback (snd (u_replay ((u_cancelConnectTimeout s)
               \<lparr>disconnectedDeferred := Some (nextDeferred (u_cancelConnectTimeout s)),
                nextDeferred := Suc (nextDeferred (u_cancelConnectTimeout s))\<rparr>))))
             \<lparr>connectedDeferred := None\<rparr>"
proof -
  define r where "r = u_replay ((u_cancelConnectTimeout s)
               \<lparr>disconnectedDeferred := Some (nextDeferred (u_cancelConnectTimeout s)),
                nextDeferred := Suc (nextDeferred (u_cancelConnectTimeout s))\<rparr>)"
  have u: "u_handleConnected msg s =
             (case r of
                (Some e, s3) \<Rightarrow> (Some e, s3)
              | (None, s3) \<Rightarrow>
                  (case connectedDeferred s3 of
                     None \<Rightarrow> (Some AttributeError, s3)
                   | Some c \<Rightarrow> (None, (fire c Callback s3)\<lparr>connectedDeferred := None\<rparr>)))"
    by (simp add: u_handleConnected_def r_def Let_def)
  have "snd (u_handleConnected msg s) = snd r \<or>
        (\<exists>c. snd (u_handleConnected msg s) = (fire c Callback (snd r))\<lparr>connectedDeferred := None\<rparr>)"
    unfolding u by (cases r) (auto split: option.splits)
  then show thesis
    using that unfolding r_def by blast
qed

lemma fields_u_handleConnected [simp]:
  "parser (snd (u_handleConnected msg s)) = parser s"
  "disconnecting (snd (u_handleConnected msg s)) = disconnecting s"
  "activeHandlers (snd (u_handleConnected msg s)) = activeHandlers s"
  "disconnect_frames (snd (u_handleConnected msg s)) = disconnect_frames s"
proof -
  show "parser (snd (u_handleConnected msg s)) = parser s"
    by (rule u_handleConnected_cases [of msg s]) (simp_all add: fire_def)
  show "disconnecting (snd (u_handleConnected msg s)) = disconnecting s"
    by (rule u_handleConnected_cases [of msg s]) (simp_all add: fire_def)
  show "activeHandlers (snd (u_handleConnected msg s)) = activeHandlers s"
    by (rule u_handleConnected_cases [of msg s]) (simp_all add: fire_def)
  show "disconnect_frames (snd (u_handleConnected msg s)) = disconnect_frames s"
    by (rule u_handleConnected_cases [of msg s]) simp_all
qed

lemma dispatch_no_connected:
  "cmd m \<noteq> ''CONNECTED'' \<Longrightarrow> disconnectedDeferred (snd (dispatch m s)) = disconnectedDeferred s"
  by (simp add: dispatch_def u_handleReceipt_def)

lemma fields_dispatch [simp]:
  "parser (snd (dispatch m s)) = parser s"
  "disconnecting s \<Longrightarrow> disconnecting (snd (dispatch m s))"
  "disconnecting s \<Longrightarrow> activeHandlers (snd (dispatch m s)) = activeHandlers s"
  "disconnecting s \<Longrightarrow> disconnect_frames (snd (dispatch m s)) = disconnect_frames s"
  by (simp_all add: dispatch_def u_handleReceipt_def)

lemma dataReceived_loop_draining:
  "disconnecting s \<Longrightarrow>
     disconnecting (snd (dataReceived_loop ms s)) \<and>
     activeHandlers (snd (dataReceived_loop ms s)) = activeHandlers s \<and>
     disconnect_frames (snd (dataReceived_loop ms s)) = disconnect_frames s"
proof (induction ms arbitrary: s)
  case Nil
  then show ?case by simp
next
  case (Cons m ms)
  let ?s1 = "snd (dispatch m (s\<lparr>parser := ms\<rparr>))"
  have d: "disconnecting ?s1" "activeHandlers ?s1 = activeHandlers s"
    "disconnect_frames ?s1 = disconnect_frames s"
    using Cons.prems by simp_all
  show ?case
  proof (cases "fst (dispatch m (s\<lparr>parser := ms\<rparr>))")
    case None
    then have "dataReceived_loop (m # ms) s = dataReceived_loop ms ?s1"
      by (cases "dispatch m (s\<lparr>parser := ms\<rparr>)") simp
    then show ?thesis using Cons.IH [OF d(1)] d by simp
  next
    case (Some e)
    then have "snd (dataReceived_loop (m # ms) s) = ?s1"
      by (cases "dispatch m (s\<lparr>parser := ms\<rparr>)") simp
    then show ?thesis using d by simp
  qed
qed

lemma dataReceived_loop_idle:
  "disconnectedDeferred s = None \<Longrightarrow> \<forall>f \<in> set ms. cmd f \<noteq> ''CONNECTED'' \<Longrightarrow>
     disconnectedDeferred (snd (dataReceived_loop ms s)) = None \<and>
     set (parser (snd (dataReceived_loop ms s))) \<subseteq> set ms"
proof (induction ms arbitrary: s)
  case Nil
  then show ?case by simp
next
  case (Cons m ms)
  let ?s1 = "snd (dispatch m (s\<lparr>parser := ms\<rparr>))"
  have d: "disconnectedDeferred ?s1 = None" "parser ?s1 = ms"
    using Cons.prems by (simp_all add: dispatch_no_connected)
  show ?case
  proof (cases "fst (dispatch m (s\<lparr>parser := ms\<rparr>))")
    case None
    then have "dataReceived_loop (m # ms) s = dataReceived_loop ms ?s1"
      by (cases "dispatch m (s\<lparr>parser := ms\<rparr>)") simp
    then show ?thesis using Cons.IH [OF d(1)] Cons.prems(2) by auto
  next
    case (Some e)
    then have "snd (dataReceived_loop (m # ms) s) = ?s1"
      by (cases "dispatch m (s\<lparr>parser := ms\<rparr>)") simp
    then show ?thesis using d by auto
  qed
qed

lemma step_never_connected:
  "never_connected s \<Longrightarrow> no_connected e \<Longrightarrow> never_connected (step e s)"
proof (cases e)
  case (DataReceived frames)
  assume a: "never_connected s" "no_connected e"
  then have "\<forall>f \<in> set (parser s @ frames). cmd f \<noteq> ''CONNECTED''"
    using DataReceived by (auto simp add: never_connected_def)
  then show ?thesis
    using a(1) DataReceived dataReceived_loop_idle [of s "parser s @ frames"]
    by (auto simp add: never_connected_def dataReceived_def)
qed (simp_all add: never_connected_def)

lemma run_never_connected:
  "never_connected s \<Longrightarrow> \<forall>e \<in> set es. no_connected e \<Longrightarrow> never_connected (run es s)"
  by (induction es arbitrary: s) (simp_all add: run_def step_never_connected)

lemma still_draining_refl: "disconnecting s \<Longrightarrow> still_draining s s"
  by (simp add: still_draining_def)

lemma still_draining_trans:
  "still_draining s s' \<Longrightarrow> still_draining s' s'' \<Longrightarrow> still_draining s s''"
  by (auto simp add: still_draining_def)

lemma step_still_draining: "disconnecting s \<Longrightarrow> still_draining s (step e s)"
proof (cases e)
  case (DataReceived frames)
  assume "disconnecting s"
  then show ?thesis
    using DataReceived dataReceived_loop_draining [of s "parser s @ frames"]
    by (simp add: still_draining_def dataReceived_def)
qed (simp_all add: still_draining_def)

lemma run_still_draining: "disconnecting s \<Longrightarrow> still_draining s (run es s)"
proof (induction es arbitrary: s)
  case Nil
  then show ?case by (simp add: run_def still_draining_refl)
next
  case (Cons e es)
  have a: "still_draining s (step e s)"
    using Cons.prems by (rule step_still_draining)
  then have "disconnecting (step e s)"
    by (simp add: still_draining_def)
  then have "still_draining (step e s) (run es (step e s))"
    by (rule Cons.IH)
  then have "still_draining s (run es (step e s))"
    using a still_draining_trans by blast
  then show ?case by (simp add: run_def)
qed

lemma written_disconnect_idle:
  "activeHandlers s = {} \<Longrightarrow> \<not> disconnecting s \<Longrightarrow>
     written (snd (disconnect cause s)) = written s @ [commands_disconnect]"
  by (simp add: disconnect_def Let_def u_finishHandlers_def u_handlersInProgress_def
      u_disconnect_def sendFrame_def loseConnection_def split: option.splits)

lemma written_disconnect_busy:
  "activeHandlers s \<noteq> {} \<Longrightarrow> written (snd (disconnect cause s)) = written s"
  by (simp add: disconnect_def Let_def u_finishHandlers_def u_handlersInProgress_def
      split: option.splits)

lemma connect_fields_subscribe [simp]:
  "fired (snd (subscribe dest h hdrs kw s)) = fired s"
  "connectedDeferred (snd (subscribe dest h hdrs kw s)) = connectedDeferred s"
  "nextDeferred (snd (subscribe dest h hdrs kw s)) = nextDeferred s"
  by (simp_all add: subscribe_def Let_def sendFrame_def split: option.splits)

lemma replay_loop_ok:
  "fst (replay_loop xs s) = None \<and>
   fired (snd (replay_loop xs s)) = fired s \<and>
   connectedDeferred (snd (replay_loop xs s)) = connectedDeferred s \<and>
   nextDeferred (snd (replay_loop xs s)) = nextDeferred s \<and>
   disconnectedDeferred (snd (replay_loop xs s)) = disconnectedDeferred s"
proof (induction xs arbitrary: s)
  case Nil
  then show ?case by simp
next
  case (Cons x xs)
  let ?r = "subscribe (fst x) (ctx_handler (snd (snd x))) (Some (fst (snd x)))
              (ctx_kwargs (snd (snd x))) s"
  obtain tok where t: "fst ?r = Inr tok"
    using subscribe_ok by blast
  then have "replay_loop (x # xs) s = replay_loop xs (snd ?r)"
    by (cases ?r) simp
  then show ?case
    using Cons.IH [of "snd ?r"] by simp
qed


lemma fired_connectionLost_connected:
  assumes "connectedDeferred s = None" "disconnectedDeferred s = Some d"
  shows "\<exists>r. fired (connectionLost s) = fired s @ [(d, r)]"
  using assms
  by (simp add: connectionLost_def u_handleConnectionLostConnect_def
      u_handleConnectionLostDisconnect_def u_cancelConnectTimeout_def fire_def Let_def
      split: option.splits)

lemma fired_connectionLost_timeout:
  assumes "connectedDeferred s = Some c" "connectError s = Some e"
  shows "take (Suc (length (fired s))) (fired (connectionLost s)) = fired s @ [(c, Errback e)]"
  using assms
  by (simp add: connectionLost_def u_handleConnectionLostConnect_def
      u_handleConnectionLostDisconnect_def u_cancelConnectTimeout_def fire_def Let_def
      split: option.splits)


lemmas eval_more =
  send_def commands_send_def handlerFires_def u_handleMessage_resume_def u_isClientAck_def
  CLIENT_ACK_MODES_def u_ack_def commands_ack_def u_postProcessMessage_def
  u_handlerFinished_def u_finish_def u_messageHandlerFailed_def cloneStompMessage_def
  u_connectTimeout_def connectionLost_def u_handleConnectionLostConnect_def
  u_handleConnectionLostDisconnect_def new_frames_def disconnect_frames_def

subsection \<open>disconnect before any CONNECTED frame\<close>

text \<open>
  C9. The disconnected Deferred is created in _handleConnected only. After any run of
  a new client in which no CONNECTED frame was handed to it, whatever else happened,
  disconnect returns None and not a Deferred.
\<close>

theorem disconnect_before_connected_returns_None:
  assumes "\<forall>e \<in> set es. no_connected e"
  shows "fst (disconnect cause (run es (init sess always))) = None"
proof -
  have "never_connected (init sess always)"
    by (simp add: never_connected_def init_def)
  then have "never_connected (run es (init sess always))"
    using assms by (rule run_never_connected)
  then have "disconnectedDeferred (snd (disconnect cause (run es (init sess always)))) = None"
    by (simp add: never_connected_def)
  then show ?thesis
    by (simp add: disconnect_def Let_def)
qed



text \<open>
  The example: connect, subscribe, a MESSAGE, the connect timeout and the loss of the
  connection.
\<close>

theorem disconnect_before_connected_returns_None_witness:
  "no_connected (Connect ''user'' ''secret'' (Some 5)) \<and>
   no_connected (Subscribe ''/q'' ex_handler_later None []) \<and>
   no_connected (DataReceived [ex_message]) \<and>
   no_connected (ConnectTimeout 5) \<and>
   no_connected ConnectionLost \<and>
   fst (disconnect None
     (run [Connect ''user'' ''secret'' (Some 5), Subscribe ''/q'' ex_handler_later None [],
           DataReceived [ex_message], ConnectTimeout 5, ConnectionLost] (init None False))) = None"
proof -
  have m: "no_connected (DataReceived [ex_message])"
    by (simp add: ex_message_def)
  then have a: "\<forall>e \<in> set [Connect ''user'' ''secret'' (Some 5),
                  Subscribe ''/q'' ex_handler_later None [],
                  DataReceived [ex_message], ConnectTimeout 5, ConnectionLost]. no_connected e"
    by simp
  show ?thesis
    using m disconnect_before_connected_returns_None [OF a, of None None False] by simp
qed

subsection \<open>Acknowledging after the handler succeeded\<close>

lemma written_u_disconnect: "written (u_disconnect s) = written s @ [commands_disconnect]"
  by (simp add: u_disconnect_def Let_def sendFrame_def loseConnection_def)

lemma written_u_finish:
  "written (u_finish s) =
     written s @ (if finishedHandlersDeferred s \<noteq> None \<and> activeHandlers s = {}
                  then [commands_disconnect] else [])"
  by (simp add: u_finish_def u_handlersInProgress_def written_u_disconnect fire_def
      split: option.splits)

lemma written_u_postProcessMessage:
  "\<exists>ds. written (snd (u_postProcessMessage messageId s)) = written s @ ds \<and>
        (ds = [] \<or> ds = [commands_disconnect])"
  by (simp add: u_postProcessMessage_def u_handlerFinished_def written_u_finish)

lemma new_frames_update [simp]:
  "new_frames (s\<lparr>activeHandlers := a\<rparr>) s' = new_frames s s'"
  "new_frames (s\<lparr>suspended := b\<rparr>) s' = new_frames s s'"
  by (simp_all add: new_frames_def)

lemma dispatch_resume:
  assumes "map_of (headers msg) MESSAGE_ID_HEADER = Some messageId"
      and "map_of (subscriptions s) (session_token (headers msg)) = Some sub"
      and "\<not> disconnecting s"
      and "messageId \<notin> activeHandlers s"
  shows "handler sub msg = Returned \<Longrightarrow> u_handleMessage msg s =
           u_handleMessage_resume messageId msg sub None
             (s\<lparr>activeHandlers := insert messageId (activeHandlers s)\<rparr>)"
    and "handler sub msg = Raised e \<Longrightarrow> u_handleMessage msg s =
           u_handleMessage_resume messageId msg sub (Some e)
             (s\<lparr>activeHandlers := insert messageId (activeHandlers s)\<rparr>)"
  using assms by (simp_all add: u_handleMessage_def u_handlerStarted_def)

lemma handlerFires_resume:
  "take_suspended messageId (suspended s) = Some ((messageId, msg, sub), rest) \<Longrightarrow>
     handlerFires messageId outcome s =
       u_handleMessage_resume messageId msg sub outcome (s\<lparr>suspended := rest\<rparr>)"
  by (simp add: handlerFires_def)

lemma resume_success_acks:
  "[f \<leftarrow> new_frames s (snd (u_handleMessage_resume messageId msg sub None s)). cmd f = ''ACK''] =
     (if ack sub = ''client'' \<or> ack sub = ''client-individual''
      then [commands_ack [(MESSAGE_ID_HEADER, messageId)]] else [])"
proof -
  let ?s1 = "if u_isClientAck sub then u_ack messageId s else s"
  obtain ds where ds: "written (snd (u_postProcessMessage messageId ?s1)) = written ?s1 @ ds"
    "ds = [] \<or> ds = [commands_disconnect]"
    using written_u_postProcessMessage by blast
  have "snd (u_handleMessage_resume messageId msg sub None s) =
          snd (u_postProcessMessage messageId ?s1)"
    by (simp add: snd_resume)
  then show ?thesis
    using ds
    by (auto simp add: new_frames_def u_isClientAck_def CLIENT_ACK_MODES_def u_ack_def
        sendFrame_def)
qed

text \<open>
  C4. A MESSAGE is dispatched and its handler completes successfully, either at once
  (the call of _handleMessage that dispatched it goes on) or later (its Deferred fires
  and the generator goes on). Among the frames written then there is no ACK frame when
  the ack mode of the subscription is auto (or anything but client and
  client-individual), and exactly one ACK frame, carrying the message-id, when it is
  client or client-individual.
\<close>

theorem ack_mode_gating:
  assumes "(map_of (headers msg) MESSAGE_ID_HEADER = Some messageId \<and>
            map_of (subscriptions s) (session_token (headers msg)) = Some sub \<and>
            \<not> disconnecting s \<and> messageId \<notin> activeHandlers s \<and>
            handler sub msg = Returned \<and> s' = snd (u_handleMessage msg s)) \<or>
           (take_suspended messageId (suspended s) = Some ((messageId, msg, sub), rest) \<and>
            s' = snd (handlerFires messageId None s))"
  shows "[f \<leftarrow> new_frames s s'. cmd f = ''ACK''] =
           (if ack sub = ''client'' \<or> ack sub = ''client-individual''
            then [commands_ack [(MESSAGE_ID_HEADER, messageId)]] else [])"
  using assms
proof (elim disjE conjE)
  assume "map_of (headers msg) MESSAGE_ID_HEADER = Some messageId"
    "map_of (subscriptions s) (session_token (headers msg)) = Some sub"
    "\<not> disconnecting s" "messageId \<notin> activeHandlers s"
    "handler sub msg = Returned" "s' = snd (u_handleMessage msg s)"
  then have "s' = snd (u_handleMessage_resume messageId msg sub None
                         (s\<lparr>activeHandlers := insert messageId (activeHandlers s)\<rparr>))"
    using dispatch_resume(1) by simp
  then show ?thesis
    using resume_success_acks
      [of "s\<lparr>activeHandlers := insert messageId (activeHandlers s)\<rparr>" messageId msg sub]
    by simp
next
  assume "take_suspended messageId (suspended s) = Some ((messageId, msg, sub), rest)"
    "s' = snd (handlerFires messageId None s)"
  then have "s' = snd (u_handleMessage_resume messageId msg sub None (s\<lparr>suspended := rest\<rparr>))"
    by (simp add: handlerFires_resume)
  then show ?thesis
    using resume_success_acks [of "s\<lparr>suspended := rest\<rparr>" messageId msg sub] by simp
qed


text \<open>
  The examples: the handler of message 1 of a subscription with the ack mode client
  completes later; a handler of a subscription with the ack mode auto returns at once.
\<close>

theorem ack_mode_gating_witness:
  "take_suspended ''1'' (suspended ex_inflight) = Some ((''1'', ex_message, ex_subscription), []) \<and>
   ack ex_subscription = ''client'' \<and>
   [f \<leftarrow> new_frames ex_inflight (snd (handlerFires ''1'' None ex_inflight)). cmd f = ''ACK''] =
     [commands_ack [(MESSAGE_ID_HEADER, ''1'')]] \<and>
   map_of (headers ex_message) MESSAGE_ID_HEADER = Some ''1'' \<and>
   map_of (subscriptions ex_auto) (session_token (headers ex_message)) =
     Some \<lparr>destination = ''/q'', handler = ex_handler_now, ack = ''auto'',
           errorDestination = None\<rparr> \<and>
   \<not> disconnecting ex_auto \<and> ''1'' \<notin> activeHandlers ex_auto \<and>
   [f \<leftarrow> new_frames ex_auto (snd (u_handleMessage ex_message ex_auto)). cmd f = ''ACK''] = []"
proof -
  have a: "take_suspended ''1'' (suspended ex_inflight) =
             Some ((''1'', ex_message, ex_subscription), [])"
    by (simp add: ex_defs eval_defs)
  have b: "map_of (headers ex_message) MESSAGE_ID_HEADER = Some ''1''"
    by (simp add: ex_message_def MESSAGE_ID_HEADER_def)
  have c: "map_of (subscriptions ex_auto) (session_token (headers ex_message)) =
     Some \<lparr>destination = ''/q'', handler = ex_handler_now, ack = ''auto'',
           errorDestination = None\<rparr>"
    by (simp add: ex_defs eval_defs)
  have d: "\<not> disconnecting ex_auto" "''1'' \<notin> activeHandlers ex_auto"
    by (simp_all add: ex_defs eval_defs)
  let ?sub = "\<lparr>destination = ''/q'', handler = ex_handler_now, ack = ''auto'',
           errorDestination = None\<rparr>"
  have e: "handler ?sub ex_message = Returned"
    by (simp add: ex_handler_now_def)
  have h1: "(map_of (headers ex_message) MESSAGE_ID_HEADER = Some ''1'' \<and>
            map_of (subscriptions ex_inflight) (session_token (headers ex_message)) =
              Some ex_subscription \<and>
            \<not> disconnecting ex_inflight \<and> ''1'' \<notin> activeHandlers ex_inflight \<and>
            handler ex_subscription ex_message = Returned \<and>
            snd (handlerFires ''1'' None ex_inflight) = snd (u_handleMessage ex_message ex_inflight)) \<or>
           (take_suspended ''1'' (suspended ex_inflight) =
              Some ((''1'', ex_message, ex_subscription), []) \<and>
            snd (handlerFires ''1'' None ex_inflight) = snd (handlerFires ''1'' None ex_inflight))"
    using a by simp
  have h2: "(map_of (headers ex_message) MESSAGE_ID_HEADER = Some ''1'' \<and>
            map_of (subscriptions ex_auto) (session_token (headers ex_message)) = Some ?sub \<and>
            \<not> disconnecting ex_auto \<and> ''1'' \<notin> activeHandlers ex_auto \<and>
            handler ?sub ex_message = Returned \<and>
            snd (u_handleMessage ex_message ex_auto) = snd (u_handleMessage ex_message ex_auto)) \<or>
           (take_suspended ''1'' (suspended ex_auto) = Some ((''1'', ex_message, ?sub), []) \<and>
            snd (u_handleMessage ex_message ex_auto) = snd (handlerFires ''1'' None ex_auto))"
    using b c d e by simp
  show ?thesis
    using a b c d ack_mode_gating [OF h1] ack_mode_gating [OF h2]
    by (simp add: ex_subscription_def)
qed

subsection \<open>A handler that fails\<close>

lemma failed_recover:
  assumes "errDest = Some d" "d \<noteq> []" "\<not> alwaysDisconnectOnUnhandledMsg s"
  shows "u_messageHandlerFailed e messageId msg errDest s =
           u_ack messageId (send d (body msg) (Some (headers (cloneStompMessage msg True)))
              (log (LogError ''Error in message handler'') s))"
  using assms
  by (simp add: u_messageHandlerFailed_def Let_def cloneStompMessage_def u_ack_def send_def
      sendFrame_def log_def)

lemma failed_disconnect_fields:
  assumes "errDest = None \<or> errDest = Some [] \<or> alwaysDisconnectOnUnhandledMsg s"
  shows "disconnectError (u_messageHandlerFailed e messageId msg errDest s) = Some e \<and>
         disconnecting (u_messageHandlerFailed e messageId msg errDest s)"
  using assms
  by (auto simp add: u_messageHandlerFailed_def Let_def u_ack_def send_def sendFrame_def log_def
      disconnect_def u_finishHandlers_def u_disconnect_def loseConnection_def
      split: option.splits)

lemma disconnectError_u_postProcessMessage [simp]:
  "disconnectError (snd (u_postProcessMessage m s)) = disconnectError s"
  by (simp add: u_postProcessMessage_def u_handlerFinished_def u_finish_def u_disconnect_def
      Let_def sendFrame_def loseConnection_def fire_def split: option.splits)

lemma resume_failure:
  "(errorDestination sub = Some d \<and> d \<noteq> [] \<and> \<not> alwaysDisconnectOnUnhandledMsg s \<longrightarrow>
      [f \<leftarrow> new_frames s (snd (u_handleMessage_resume messageId msg sub (Some e) s)).
         cmd f = ''SEND''] =
         [commands_send d (body msg) (Some (headers (cloneStompMessage msg True)))] \<and>
      [f \<leftarrow> new_frames s (snd (u_handleMessage_resume messageId msg sub (Some e) s)).
         cmd f = ''ACK''] =
         [commands_ack [(MESSAGE_ID_HEADER, messageId)]] \<and>
      disconnecting (snd (u_handleMessage_resume messageId msg sub (Some e) s)) = disconnecting s \<and>
      disconnectError (snd (u_handleMessage_resume messageId msg sub (Some e) s)) =
        disconnectError s) \<and>
   (errorDestination sub = None \<or> errorDestination sub = Some [] \<or>
    alwaysDisconnectOnUnhandledMsg s \<longrightarrow>
      disconnecting (snd (u_handleMessage_resume messageId msg sub (Some e) s)) \<and>
      disconnectError (snd (u_handleMessage_resume messageId msg sub (Some e) s)) = Some e)"
proof (intro conjI impI)
  assume a: "errorDestination sub = Some d \<and> d \<noteq> [] \<and> \<not> alwaysDisconnectOnUnhandledMsg s"
  let ?s1 = "u_messageHandlerFailed e messageId msg (errorDestination sub) s"
  have s1: "?s1 = u_ack messageId (send d (body msg) (Some (headers (cloneStompMessage msg True)))
              (log (LogError ''Error in message handler'') s))"
    using a failed_recover by blast
  obtain ds where ds: "written (snd (u_postProcessMessage messageId ?s1)) = written ?s1 @ ds"
    "ds = [] \<or> ds = [commands_disconnect]"
    using written_u_postProcessMessage by blast
  show "[f \<leftarrow> new_frames s (snd (u_handleMessage_resume messageId msg sub (Some e) s)).
          cmd f = ''SEND''] =
         [commands_send d (body msg) (Some (headers (cloneStompMessage msg True)))]"
    using ds
    by (auto simp add: snd_resume s1 new_frames_def u_ack_def send_def sendFrame_def log_def)
  show "[f \<leftarrow> new_frames s (snd (u_handleMessage_resume messageId msg sub (Some e) s)).
          cmd f = ''ACK''] =
         [commands_ack [(MESSAGE_ID_HEADER, messageId)]]"
    using ds
    by (auto simp add: snd_resume s1 new_frames_def u_ack_def send_def sendFrame_def log_def)
  show "disconnecting (snd (u_handleMessage_resume messageId msg sub (Some e) s)) = disconnecting s"
    by (simp add: snd_resume s1 u_ack_def send_def sendFrame_def log_def)
  show "disconnectError (snd (u_handleMessage_resume messageId msg sub (Some e) s)) =
          disconnectError s"
    by (simp add: snd_resume s1 u_ack_def send_def sendFrame_def log_def)
next
  assume a: "errorDestination sub = None \<or> errorDestination sub = Some [] \<or>
             alwaysDisconnectOnUnhandledMsg s"
  show "disconnecting (snd (u_handleMessage_resume messageId msg sub (Some e) s))"
    using failed_disconnect_fields [OF a] by (simp add: snd_resume)
  show "disconnectError (snd (u_handleMessage_resume messageId msg sub (Some e) s)) = Some e"
    using failed_disconnect_fields [OF a] by (simp add: snd_resume)
qed

lemma forwarded_clone:
  "map_of (headers (commands_send d (body msg) (Some (headers (cloneStompMessage msg True)))))
     ''persistent'' = Some ''true'' \<and>
   map_of (headers (commands_send d (body msg) (Some (headers (cloneStompMessage msg True)))))
     DESTINATION_HEADER = Some d \<and>
   body (commands_send d (body msg) (Some (headers (cloneStompMessage msg True)))) = body msg"
  by (simp add: commands_send_def cloneStompMessage_def update_conv' DESTINATION_HEADER_def)

text \<open>
  C5. A MESSAGE is dispatched and its handler raises, at once or later. With an error
  destination (not None and not empty) and alwaysDisconnectOnUnhandledMsg off, exactly
  one SEND frame is written, the clone of the message marked persistent and addressed
  to the error destination (\<open>forwarded_clone\<close>), exactly one ACK frame with the
  message-id, and the disconnecting flag and the disconnect error are as before.
  Without an error destination, or with alwaysDisconnectOnUnhandledMsg on, the failure
  is the recorded disconnect error afterwards and the disconnecting flag is set.
\<close>

theorem handler_failure_policy:
  assumes "(map_of (headers msg) MESSAGE_ID_HEADER = Some messageId \<and>
            map_of (subscriptions s) (session_token (headers msg)) = Some sub \<and>
            \<not> disconnecting s \<and> messageId \<notin> activeHandlers s \<and>
            handler sub msg = Raised e \<and> s' = snd (u_handleMessage msg s)) \<or>
           (take_suspended messageId (suspended s) = Some ((messageId, msg, sub), rest) \<and>
            s' = snd (handlerFires messageId (Some e) s))"
  shows "(errorDestination sub = Some d \<and> d \<noteq> [] \<and> \<not> alwaysDisconnectOnUnhandledMsg s \<longrightarrow>
            [f \<leftarrow> new_frames s s'. cmd f = ''SEND''] =
              [commands_send d (body msg) (Some (headers (cloneStompMessage msg True)))] \<and>
            [f \<leftarrow> new_frames s s'. cmd f = ''ACK''] =
              [commands_ack [(MESSAGE_ID_HEADER, messageId)]] \<and>
            disconnecting s' = disconnecting s \<and> disconnectError s' = disconnectError s) \<and>
         (errorDestination sub = None \<or> errorDestination sub = Some [] \<or>
          alwaysDisconnectOnUnhandledMsg s \<longrightarrow>
            disconnecting s' \<and> disconnectError s' = Some e)"
  using assms
proof (elim disjE conjE)
  assume "map_of (headers msg) MESSAGE_ID_HEADER = Some messageId"
    "map_of (subscriptions s) (session_token (headers msg)) = Some sub"
    "\<not> disconnecting s" "messageId \<notin> activeHandlers s"
    "handler sub msg = Raised e" "s' = snd (u_handleMessage msg s)"
  then have "s' = snd (u_handleMessage_resume messageId msg sub (Some e)
                         (s\<lparr>activeHandlers := insert messageId (activeHandlers s)\<rparr>))"
    using dispatch_resume(2) by simp
  then show ?thesis
    using resume_failure
      [of sub d "s\<lparr>activeHandlers := insert messageId (activeHandlers s)\<rparr>" messageId msg e]
    by simp
next
  assume "take_suspended messageId (suspended s) = Some ((messageId, msg, sub), rest)"
    "s' = snd (handlerFires messageId (Some e) s)"
  then have "s' = snd (u_handleMessage_resume messageId msg sub (Some e) (s\<lparr>suspended := rest\<rparr>))"
    by (simp add: handlerFires_resume)
  then show ?thesis
    using resume_failure [of sub d "s\<lparr>suspended := rest\<rparr>" messageId msg e] by simp
qed


text \<open>
  The examples: a handler that raises at once, with the error destination /errors; the
  handler of message 1, without an error destination, failing later.
\<close>

theorem handler_failure_policy_witness:
  "map_of (headers ex_message) MESSAGE_ID_HEADER = Some ''1'' \<and>
   map_of (subscriptions ex_recovering) (session_token (headers ex_message)) =
     Some \<lparr>destination = ''/q'', handler = ex_handler_raise, ack = ''client'',
           errorDestination = Some ''/errors''\<rparr> \<and>
   \<not> disconnecting ex_recovering \<and> ''1'' \<notin> activeHandlers ex_recovering \<and>
   \<not> alwaysDisconnectOnUnhandledMsg ex_recovering \<and>
   [f \<leftarrow> new_frames ex_recovering (snd (u_handleMessage ex_message ex_recovering)).
      cmd f = ''SEND''] =
     [\<lparr>cmd = ''SEND'',
       headers = [(''message-id'', ''1''), (''destination'', ''/errors''), (''id'', ''0''),
                  (''persistent'', ''true'')],
       body = ''x''\<rparr>] \<and>
   [f \<leftarrow> new_frames ex_recovering (snd (u_handleMessage ex_message ex_recovering)).
      cmd f = ''ACK''] = [commands_ack [(MESSAGE_ID_HEADER, ''1'')]] \<and>
   \<not> disconnecting (snd (u_handleMessage ex_message ex_recovering)) \<and>
   disconnectError (snd (u_handleMessage ex_message ex_recovering)) = None \<and>
   take_suspended ''1'' (suspended ex_inflight) = Some ((''1'', ex_message, ex_subscription), []) \<and>
   errorDestination ex_subscription = None \<and>
   disconnecting (snd (handlerFires ''1'' (Some (HandlerError ''late'')) ex_inflight)) \<and>
   disconnectError (snd (handlerFires ''1'' (Some (HandlerError ''late'')) ex_inflight)) =
     Some (HandlerError ''late'')"
proof -
  let ?sub = "\<lparr>destination = ''/q'', handler = ex_handler_raise, ack = ''client'',
           errorDestination = Some ''/errors''\<rparr>"
  have a: "take_suspended ''1'' (suspended ex_inflight) =
             Some ((''1'', ex_message, ex_subscription), [])"
    by (simp add: ex_defs eval_defs)
  have b: "map_of (headers ex_message) MESSAGE_ID_HEADER = Some ''1''"
    by (simp add: ex_message_def MESSAGE_ID_HEADER_def)
  have c: "map_of (subscriptions ex_recovering) (session_token (headers ex_message)) = Some ?sub"
    by (simp add: ex_defs eval_defs)
  have d: "\<not> disconnecting ex_recovering" "''1'' \<notin> activeHandlers ex_recovering"
    "\<not> alwaysDisconnectOnUnhandledMsg ex_recovering" "disconnectError ex_recovering = None"
    by (simp_all add: ex_defs eval_defs)
  have e: "handler ?sub ex_message = Raised (HandlerError ''boom'')"
    by (simp add: ex_handler_raise_def)
  have f: "commands_send ''/errors'' (body ex_message)
             (Some (headers (cloneStompMessage ex_message True))) =
           \<lparr>cmd = ''SEND'',
            headers = [(''message-id'', ''1''), (''destination'', ''/errors''), (''id'', ''0''),
                  (''persistent'', ''true'')],
            body = ''x''\<rparr>"
    by (simp add: commands_send_def cloneStompMessage_def ex_message_def DESTINATION_HEADER_def)
  have h1: "(map_of (headers ex_message) MESSAGE_ID_HEADER = Some ''1'' \<and>
            map_of (subscriptions ex_recovering) (session_token (headers ex_message)) = Some ?sub \<and>
            \<not> disconnecting ex_recovering \<and> ''1'' \<notin> activeHandlers ex_recovering \<and>
            handler ?sub ex_message = Raised (HandlerError ''boom'') \<and>
            snd (u_handleMessage ex_message ex_recovering) =
              snd (u_handleMessage ex_message ex_recovering)) \<or>
           (take_suspended ''1'' (suspended ex_recovering) = Some ((''1'', ex_message, ?sub), []) \<and>
            snd (u_handleMessage ex_message ex_recovering) =
              snd (handlerFires ''1'' (Some (HandlerError ''boom'')) ex_recovering))"
    using b c d e by simp
  have h2: "(map_of (headers ex_message) MESSAGE_ID_HEADER = Some ''1'' \<and>
            map_of (subscriptions ex_inflight) (session_token (headers ex_message)) =
              Some ex_subscription \<and>
            \<not> disconnecting ex_inflight \<and> ''1'' \<notin> activeHandlers ex_inflight \<and>
            handler ex_subscription ex_message = Raised (HandlerError ''late'') \<and>
            snd (handlerFires ''1'' (Some (HandlerError ''late'')) ex_inflight) =
              snd (u_handleMessage ex_message ex_inflight)) \<or>
           (take_suspended ''1'' (suspended ex_inflight) =
              Some ((''1'', ex_message, ex_subscription), []) \<and>
            snd (handlerFires ''1'' (Some (HandlerError ''late'')) ex_inflight) =
              snd (handlerFires ''1'' (Some (HandlerError ''late'')) ex_inflight))"
    using a by simp
  show ?thesis
    using a b c d
      handler_failure_policy [OF h1, of "''/errors''"]
      handler_failure_policy [OF h2, of "[]"]
    by (simp add: f ex_subscription_def)
qed

subsection \<open>Handlers that stay active, Deferreds that stay pending\<close>

text \<open>
  A handler stays in the set of active handlers until its own Deferred fires. The
  methods other than connect, _handleConnected, _handleError and connectionLost leave
  the connect Deferred and the connect error alone, and no method fires a Deferred
  that none of the attributes holds.
\<close>

lemma take_suspended_fst:
  "take_suspended m gs = Some (g, rest) \<Longrightarrow> fst g = m"
  by (induction gs arbitrary: g rest) (auto split: if_splits option.splits)

lemma active_u_handleMessage:
  "m \<in> activeHandlers s \<Longrightarrow> m \<in> activeHandlers (snd (u_handleMessage msg s))"
  by (auto simp add: u_handleMessage_def u_handlerStarted_def log_def
      split: option.splits handler_result.splits)

lemma active_handlerFires:
  "m \<in> activeHandlers s \<Longrightarrow> m' \<noteq> m \<Longrightarrow> m \<in> activeHandlers (snd (handlerFires m' outcome s))"
  by (auto simp add: handlerFires_def dest: take_suspended_fst split: option.splits)

lemma active_dispatch:
  "m \<in> activeHandlers s \<Longrightarrow> m \<in> activeHandlers (snd (dispatch message s))"
  by (simp add: dispatch_def u_handleReceipt_def active_u_handleMessage)

lemma active_dataReceived_loop:
  "m \<in> activeHandlers s \<Longrightarrow> m \<in> activeHandlers (snd (dataReceived_loop ms s))"
proof (induction ms arbitrary: s)
  case Nil
  then show ?case by simp
next
  case (Cons x ms)
  let ?s1 = "snd (dispatch x (s\<lparr>parser := ms\<rparr>))"
  have d: "m \<in> activeHandlers ?s1"
    using Cons.prems by (simp add: active_dispatch)
  show ?case
  proof (cases "fst (dispatch x (s\<lparr>parser := ms\<rparr>))")
    case None
    then have "dataReceived_loop (x # ms) s = dataReceived_loop ms ?s1"
      by (cases "dispatch x (s\<lparr>parser := ms\<rparr>)") simp
    then show ?thesis using Cons.IH [OF d] by simp
  next
    case (Some e)
    then have "snd (dataReceived_loop (x # ms) s) = ?s1"
      by (cases "dispatch x (s\<lparr>parser := ms\<rparr>)") simp
    then show ?thesis using d by simp
  qed
qed

lemma active_step:
  "m \<in> activeHandlers s \<Longrightarrow> \<not> fires m e \<Longrightarrow> m \<in> activeHandlers (step e s)"
  by (cases e) (simp_all add: active_handlerFires active_dataReceived_loop dataReceived_def)

lemma active_run:
  "m \<in> activeHandlers s \<Longrightarrow> \<forall>e \<in> set es. \<not> fires m e \<Longrightarrow> m \<in> activeHandlers (run es s)"
  by (induction es arbitrary: s) (simp_all add: run_def active_step)

lemma pending_active:
  "fst (u_handleMessage msg s) = Pending \<Longrightarrow>
   map_of (headers msg) MESSAGE_ID_HEADER = Some messageId \<Longrightarrow>
   messageId \<in> activeHandlers (snd (u_handleMessage msg s))"
  by (auto simp add: u_handleMessage_def u_handlerStarted_def u_handleMessage_resume_def Let_def
      split: option.splits handler_result.splits if_splits prod.splits)

lemma conn_sendFrame [simp]:
  "connectedDeferred (sendFrame f s) = connectedDeferred s"
  "connectError (sendFrame f s) = connectError s"
  "guarded c (sendFrame f s) = guarded c s"
  "fired_of c (sendFrame f s) = fired_of c s"
  by (simp_all add: sendFrame_def guarded_def fired_of_def)

lemma conn_log [simp]:
  "connectedDeferred (log e s) = connectedDeferred s"
  "connectError (log e s) = connectError s"
  "guarded c (log e s) = guarded c s"
  "fired_of c (log e s) = fired_of c s"
  by (simp_all add: log_def guarded_def fired_of_def)

lemma conn_loseConnection [simp]:
  "connectedDeferred (loseConnection s) = connectedDeferred s"
  "connectError (loseConnection s) = connectError s"
  "guarded c (loseConnection s) = guarded c s"
  "fired_of c (loseConnection s) = fired_of c s"
  by (simp_all add: loseConnection_def guarded_def fired_of_def)

lemma conn_update [simp]:
  "guarded c (s\<lparr>activeHandlers := a\<rparr>) = guarded c s"
  "guarded c (s\<lparr>suspended := x\<rparr>) = guarded c s"
  "guarded c (s\<lparr>parser := p\<rparr>) = guarded c s"
  "guarded c (s\<lparr>disconnectError := e\<rparr>) = guarded c s"
  "guarded c (s\<lparr>disconnecting := b\<rparr>) = guarded c s"
  "guarded c (s\<lparr>session := se\<rparr>) = guarded c s"
  "guarded c (s\<lparr>subscriptions := su\<rparr>) = guarded c s"
  "guarded c (s\<lparr>connectError := ce\<rparr>) = guarded c s"
  "guarded c (s\<lparr>connectedDeferred := cd\<rparr>) = guarded c s"
  "guarded c (s\<lparr>disconnectedDeferred := dd\<rparr>) = guarded c s"
  "guarded c (s\<lparr>connectTimeoutDelayedCall := dc\<rparr>) = guarded c s"
  "fired_of c (s\<lparr>activeHandlers := a\<rparr>) = fired_of c s"
  "fired_of c (s\<lparr>suspended := x\<rparr>) = fired_of c s"
  "fired_of c (s\<lparr>parser := p\<rparr>) = fired_of c s"
  "fired_of c (s\<lparr>disconnectError := e\<rparr>) = fired_of c s"
  "fired_of c (s\<lparr>disconnecting := b\<rparr>) = fired_of c s"
  "fired_of c (s\<lparr>session := se\<rparr>) = fired_of c s"
  "fired_of c (s\<lparr>subscriptions := su\<rparr>) = fired_of c s"
  "fired_of c (s\<lparr>connectError := ce\<rparr>) = fired_of c s"
  "fired_of c (s\<lparr>connectedDeferred := cd\<rparr>) = fired_of c s"
  "fired_of c (s\<lparr>disconnectedDeferred := dd\<rparr>) = fired_of c s"
  "fired_of c (s\<lparr>connectTimeoutDelayedCall := dc\<rparr>) = fired_of c s"
  "fired_of c (s\<lparr>nextDeferred := n\<rparr>) = fired_of c s"
  "fired_of c (s\<lparr>finishedHandlersDeferred := fd\<rparr>) = fired_of c s"
  by (simp_all add: guarded_def fired_of_def)

lemma conn_fire [simp]:
  "connectedDeferred (fire d r s) = connectedDeferred s"
  "connectError (fire d r s) = connectError s"
  "guarded c (fire d r s) = guarded c s"
  "fired_of c (fire d r s) = fired_of c s @ (if d = c then [(d, r)] else [])"
  by (simp_all add: fire_def guarded_def fired_of_def)

lemma conn_primitive [simp]:
  "disconnectedDeferred (fire d r s) = disconnectedDeferred s"
  "disconnectedDeferred (loseConnection s) = disconnectedDeferred s"
  "nextDeferred (fire d r s) = nextDeferred s"
  "nextDeferred (loseConnection s) = nextDeferred s"
  "nextDeferred (log e s) = nextDeferred s"
  by (simp_all add: fire_def loseConnection_def log_def)

lemma conn_u_ack [simp]:
  "connectedDeferred (u_ack m s) = connectedDeferred s"
  "connectError (u_ack m s) = connectError s"
  "guarded c (u_ack m s) = guarded c s"
  "fired_of c (u_ack m s) = fired_of c s"
  by (simp_all add: u_ack_def)

lemma conn_send [simp]:
  "connectedDeferred (send d m h s) = connectedDeferred s"
  "connectError (send d m h s) = connectError s"
  "guarded c (send d m h s) = guarded c s"
  "fired_of c (send d m h s) = fired_of c s"
  by (simp_all add: send_def)

lemma conn_subscribe [simp]:
  "connectedDeferred (snd (subscribe dest h hdrs kw s)) = connectedDeferred s"
  "connectError (snd (subscribe dest h hdrs kw s)) = connectError s"
  "guarded c (snd (subscribe dest h hdrs kw s)) = guarded c s"
  "fired_of c (snd (subscribe dest h hdrs kw s)) = fired_of c s"
  by (simp_all add: subscribe_def Let_def split: option.splits)

lemma conn_unsubscribe [simp]:
  "connectedDeferred (snd (unsubscribe tok s)) = connectedDeferred s"
  "connectError (snd (unsubscribe tok s)) = connectError s"
  "guarded c (snd (unsubscribe tok s)) = guarded c s"
  "fired_of c (snd (unsubscribe tok s)) = fired_of c s"
  by (simp_all add: unsubscribe_def session_unsubscribe_def Let_def
      split: option.splits sum.splits)

lemma conn_u_disconnect [simp]:
  "connectedDeferred (u_disconnect s) = connectedDeferred s"
  "connectError (u_disconnect s) = connectError s"
  "guarded c (u_disconnect s) = guarded c s"
  "fired_of c (u_disconnect s) = fired_of c s"
  by (simp_all add: u_disconnect_def Let_def)

lemma conn_u_finishHandlers [simp]:
  "connectedDeferred (snd (u_finishHandlers s)) = connectedDeferred s"
  "connectError (snd (u_finishHandlers s)) = connectError s"
  "guarded c s \<Longrightarrow> guarded c (snd (u_finishHandlers s))"
  "fired_of c (snd (u_finishHandlers s)) = fired_of c s"
  by (auto simp add: u_finishHandlers_def Let_def guarded_def fired_of_def)

lemma snd_disconnect:
  "snd (disconnect cause s) =
     (if disconnecting s
      then (case cause of None \<Rightarrow> s | Some e \<Rightarrow> s\<lparr>disconnectError := Some e\<rparr>)
      else (if fst (u_finishHandlers
                 ((case cause of None \<Rightarrow> s | Some e \<Rightarrow> s\<lparr>disconnectError := Some e\<rparr>)
                    \<lparr>disconnecting := True\<rparr>)) = None
            then u_disconnect (snd (u_finishHandlers
                 ((case cause of None \<Rightarrow> s | Some e \<Rightarrow> s\<lparr>disconnectError := Some e\<rparr>)
                    \<lparr>disconnecting := True\<rparr>)))
            else snd (u_finishHandlers
                 ((case cause of None \<Rightarrow> s | Some e \<Rightarrow> s\<lparr>disconnectError := Some e\<rparr>)
                    \<lparr>disconnecting := True\<rparr>))))"
  by (cases cause)
     (simp_all add: disconnect_def Let_def u_finishHandlers_def split: prod.splits option.splits)

lemma conn_disconnect [simp]:
  "connectedDeferred (snd (disconnect cause s)) = connectedDeferred s"
  "connectError (snd (disconnect cause s)) = connectError s"
  "guarded c s \<Longrightarrow> guarded c (snd (disconnect cause s))"
  "fired_of c (snd (disconnect cause s)) = fired_of c s"
  by (cases cause; simp add: snd_disconnect)+

lemma conn_u_finish [simp]:
  "connectedDeferred (u_finish s) = connectedDeferred s"
  "connectError (u_finish s) = connectError s"
  "guarded c s \<Longrightarrow> guarded c (u_finish s)"
  "guarded c s \<Longrightarrow> fired_of c (u_finish s) = fired_of c s"
proof -
  have n: "nextDeferred (u_disconnect (fire d Callback s)) = nextDeferred s" for d
    by (simp add: u_disconnect_def Let_def sendFrame_def loseConnection_def fire_def)
  show "connectedDeferred (u_finish s) = connectedDeferred s"
    "connectError (u_finish s) = connectError s"
    by (simp_all add: u_finish_def split: option.splits)
  show "guarded c s \<Longrightarrow> guarded c (u_finish s)"
    by (auto simp add: u_finish_def guarded_def n split: option.splits)
  show "guarded c s \<Longrightarrow> fired_of c (u_finish s) = fired_of c s"
    by (auto simp add: u_finish_def guarded_def split: option.splits)
qed

lemma conn_u_postProcessMessage [simp]:
  "connectedDeferred (snd (u_postProcessMessage m s)) = connectedDeferred s"
  "connectError (snd (u_postProcessMessage m s)) = connectError s"
  "guarded c s \<Longrightarrow> guarded c (snd (u_postProcessMessage m s))"
  "guarded c s \<Longrightarrow> fired_of c (snd (u_postProcessMessage m s)) = fired_of c s"
  by (simp_all add: u_postProcessMessage_def u_handlerFinished_def)

lemma conn_u_messageHandlerFailed [simp]:
  "connectedDeferred (u_messageHandlerFailed e m msg errDest s) = connectedDeferred s"
  "connectError (u_messageHandlerFailed e m msg errDest s) = connectError s"
  "guarded c s \<Longrightarrow> guarded c (u_messageHandlerFailed e m msg errDest s)"
  "fired_of c (u_messageHandlerFailed e m msg errDest s) = fired_of c s"
  by (simp_all add: u_messageHandlerFailed_def Let_def split: option.splits)

lemma conn_u_handleMessage_resume [simp]:
  "connectedDeferred (snd (u_handleMessage_resume m msg sub outcome s)) = connectedDeferred s"
  "connectError (snd (u_handleMessage_resume m msg sub outcome s)) = connectError s"
  "guarded c s \<Longrightarrow> guarded c (snd (u_handleMessage_resume m msg sub outcome s))"
  "guarded c s \<Longrightarrow> fired_of c (snd (u_handleMessage_resume m msg sub outcome s)) = fired_of c s"
  by (simp_all add: snd_resume split: option.splits)

lemma conn_u_handleMessage [simp]:
  "connectedDeferred (snd (u_handleMessage msg s)) = connectedDeferred s"
  "connectError (snd (u_handleMessage msg s)) = connectError s"
  "guarded c s \<Longrightarrow> guarded c (snd (u_handleMessage msg s))"
  "guarded c s \<Longrightarrow> fired_of c (snd (u_handleMessage msg s)) = fired_of c s"
  by (simp_all add: u_handleMessage_def u_handlerStarted_def
      split: option.splits handler_result.splits)

lemma conn_handlerFires [simp]:
  "connectedDeferred (snd (handlerFires m outcome s)) = connectedDeferred s"
  "connectError (snd (handlerFires m outcome s)) = connectError s"
  "guarded c s \<Longrightarrow> guarded c (snd (handlerFires m outcome s))"
  "guarded c s \<Longrightarrow> fired_of c (snd (handlerFires m outcome s)) = fired_of c s"
  by (simp_all add: handlerFires_def split: option.splits prod.splits)


lemma conn_u_cancelConnectTimeout [simp]:
  "connectedDeferred (u_cancelConnectTimeout s) = connectedDeferred s"
  "connectError (u_cancelConnectTimeout s) = connectError s"
  "disconnectedDeferred (u_cancelConnectTimeout s) = disconnectedDeferred s"
  "nextDeferred (u_cancelConnectTimeout s) = nextDeferred s"
  "guarded c (u_cancelConnectTimeout s) = guarded c s"
  "fired_of c (u_cancelConnectTimeout s) = fired_of c s"
  by (simp_all add: u_cancelConnectTimeout_def split: option.splits)

lemma conn_replay_loop:
  "connectError (snd (replay_loop xs s)) = connectError s \<and>
   guarded c (snd (replay_loop xs s)) = guarded c s \<and>
   fired_of c (snd (replay_loop xs s)) = fired_of c s"
proof (induction xs arbitrary: s)
  case Nil
  then show ?case by simp
next
  case (Cons x xs)
  let ?r = "subscribe (fst x) (ctx_handler (snd (snd x))) (Some (fst (snd x)))
              (ctx_kwargs (snd (snd x))) s"
  obtain tok where t: "fst ?r = Inr tok"
    using subscribe_ok by blast
  then have "replay_loop (x # xs) s = replay_loop xs (snd ?r)"
    by (cases ?r) simp
  then show ?case
    using Cons.IH [of "snd ?r"] by simp
qed


lemma fields2_u_replay [simp]:
  "connectError (snd (u_replay s)) = connectError s"
  "guarded c (snd (u_replay s)) = guarded c s"
  "fired_of c (snd (u_replay s)) = fired_of c s"
  "disconnectedDeferred (snd (u_replay s)) = disconnectedDeferred s"
  "connectedDeferred (snd (u_replay s)) = connectedDeferred s"
  using conn_replay_loop [of "fst (session_replay (session s))"
      "s\<lparr>session := snd (session_replay (session s))\<rparr>" c]
    replay_loop_ok [of "fst (session_replay (session s))"
      "s\<lparr>session := snd (session_replay (session s))\<rparr>"]
  by (simp_all add: u_replay_def Let_def)

lemma guarded_fresh:
  "guarded c s \<Longrightarrow> guarded c (s\<lparr>nextDeferred := Suc (nextDeferred s)\<rparr>)"
  "guarded c s \<Longrightarrow> Some (nextDeferred s) \<noteq> Some c"
  by (simp_all add: guarded_def)





lemma conn_u_connectTimeout [simp]:
  "connectedDeferred (u_connectTimeout t s) = connectedDeferred s"
  "connectError (u_connectTimeout t s) = Some StompConnectTimeout"
  "guarded c (u_connectTimeout t s) = guarded c s"
  "fired_of c (u_connectTimeout t s) = fired_of c s"
  by (simp_all add: u_connectTimeout_def)




lemma detached_parser [simp]: "detached c (s\<lparr>parser := p\<rparr>) = detached c s"
  by (simp add: detached_def)




lemma pending_timeout_parser [simp]:
  "pending_timeout c (s\<lparr>parser := p\<rparr>) = pending_timeout c s"
  by (simp add: pending_timeout_def)







lemmas eval_all = ex_defs eval_defs eval_more

subsection \<open>Draining the handlers before DISCONNECT\<close>

text \<open>
  C3. A call of disconnect on a client without active handlers (the first call, the
  disconnecting flag not set) writes the DISCONNECT frame at once. A call of disconnect
  with N > 0 handlers in the set of active handlers writes nothing, and whatever
  happens afterwards (any run of events): no handler is added to the set; as long as
  the set is not empty no DISCONNECT frame has been written; and as long as the
  Deferred of one of the N handlers has not fired no DISCONNECT frame has been
  written. So the frame is written only after all N handlers have completed.
\<close>

theorem drain_before_disconnect:
  "(activeHandlers s = {} \<and> \<not> disconnecting s \<longrightarrow>
      new_frames s (snd (disconnect cause s)) = [commands_disconnect]) \<and>
   (activeHandlers s \<noteq> {} \<longrightarrow>
      new_frames s (snd (disconnect cause s)) = [] \<and>
      (\<forall>es. activeHandlers (run es (snd (disconnect cause s))) \<subseteq> activeHandlers s \<and>
            (activeHandlers (run es (snd (disconnect cause s))) \<noteq> {} \<longrightarrow>
               disconnect_frames (run es (snd (disconnect cause s))) = disconnect_frames s)) \<and>
      (\<forall>es m. m \<in> activeHandlers s \<and> (\<forall>e \<in> set es. \<not> fires m e) \<longrightarrow>
            disconnect_frames (run es (snd (disconnect cause s))) = disconnect_frames s))"
proof (intro conjI impI allI)
  assume "activeHandlers s = {} \<and> \<not> disconnecting s"
  then show "new_frames s (snd (disconnect cause s)) = [commands_disconnect]"
    by (simp add: new_frames_def written_disconnect_idle)
next
  assume a: "activeHandlers s \<noteq> {}"
  then show "new_frames s (snd (disconnect cause s)) = []"
    by (simp add: new_frames_def written_disconnect_busy)
next
  fix es
  have "still_draining (snd (disconnect cause s)) (run es (snd (disconnect cause s)))"
    by (rule run_still_draining) simp
  then show "activeHandlers (run es (snd (disconnect cause s))) \<subseteq> activeHandlers s"
    by (simp add: still_draining_def)
next
  fix es
  assume a: "activeHandlers s \<noteq> {}"
    and b: "activeHandlers (run es (snd (disconnect cause s))) \<noteq> {}"
  have d: "disconnect_frames (snd (disconnect cause s)) = disconnect_frames s"
    using a by (simp add: disconnect_frames_def written_disconnect_busy)
  have "still_draining (snd (disconnect cause s)) (run es (snd (disconnect cause s)))"
    by (rule run_still_draining) simp
  then show "disconnect_frames (run es (snd (disconnect cause s))) = disconnect_frames s"
    using b d by (simp add: still_draining_def)
next
  fix es m
  assume a: "activeHandlers s \<noteq> {}"
    and b: "m \<in> activeHandlers s \<and> (\<forall>e \<in> set es. \<not> fires m e)"
  have d: "disconnect_frames (snd (disconnect cause s)) = disconnect_frames s"
    using a by (simp add: disconnect_frames_def written_disconnect_busy)
  have "m \<in> activeHandlers (snd (disconnect cause s))"
    using b by simp
  then have "m \<in> activeHandlers (run es (snd (disconnect cause s)))"
    using b active_run by blast
  then have n: "activeHandlers (run es (snd (disconnect cause s))) \<noteq> {}"
    by blast
  have "still_draining (snd (disconnect cause s)) (run es (snd (disconnect cause s)))"
    by (rule run_still_draining) simp
  then show "disconnect_frames (run es (snd (disconnect cause s))) = disconnect_frames s"
    using n d by (simp add: still_draining_def)
qed

text \<open>
  The examples: disconnect with no handler running; disconnect with the handlers of the
  messages 1 and 2 running: after handler 1 has completed there is no DISCONNECT frame,
  after handler 2 has completed as well there is one.
\<close>

theorem drain_before_disconnect_witness:
  "activeHandlers ex_subscribed = {} \<and> \<not> disconnecting ex_subscribed \<and>
   new_frames ex_subscribed (snd (disconnect None ex_subscribed)) = [commands_disconnect] \<and>
   activeHandlers ex_two_inflight = {''1'', ''2''} \<and>
   new_frames ex_two_inflight (snd (disconnect None ex_two_inflight)) = [] \<and>
   \<not> fires ''2'' (HandlerFires ''1'' None) \<and>
   disconnect_frames (run [HandlerFires ''1'' None] (snd (disconnect None ex_two_inflight))) = [] \<and>
   disconnect_frames
     (run [HandlerFires ''1'' None, HandlerFires ''2'' None]
        (snd (disconnect None ex_two_inflight))) = [commands_disconnect]"
proof -
  have a: "activeHandlers ex_subscribed = {}" "\<not> disconnecting ex_subscribed"
    by (simp_all add: ex_defs eval_defs)
  have b: "activeHandlers ex_two_inflight = {''1'', ''2''}"
    by (simp add: eval_all) blast
  have c: "disconnect_frames ex_two_inflight = []"
    by (simp add: eval_all)
  have e: "disconnect_frames
     (run [HandlerFires ''1'' None, HandlerFires ''2'' None]
        (snd (disconnect None ex_two_inflight))) = [commands_disconnect]"
    by (simp add: eval_all insert_Diff_if)
  have f: "''2'' \<in> activeHandlers ex_two_inflight \<and>
           (\<forall>e \<in> set [HandlerFires ''1'' None]. \<not> fires ''2'' e)"
    using b by simp
  have g: "activeHandlers ex_two_inflight \<noteq> {}"
    using b by simp
  have "disconnect_frames (run [HandlerFires ''1'' None] (snd (disconnect None ex_two_inflight))) =
          disconnect_frames ex_two_inflight"
    using drain_before_disconnect [of ex_two_inflight None] f g by blast
  then show ?thesis
    using a b c e g
      drain_before_disconnect [of ex_subscribed None]
      drain_before_disconnect [of ex_two_inflight None]
    by simp
qed

subsection \<open>The connect timeout and a late CONNECTED frame\<close>






subsection \<open>A second MESSAGE with an active message-id\<close>

text \<open>
  C2. A MESSAGE frame is dispatched and its handler has not completed: _handleMessage
  returned a pending Deferred, and whatever happened since (any run of events), the
  Deferred of that handler has not fired. A MESSAGE frame with the same message-id that
  matches a registered subscription while the client is not disconnecting then fails
  with StompProtocolError: _handlerStarted raises it, and the client is left as it
  was, so the message-id is not added a second time. The exception is raised inside
  the generator of _handleMessage, so it is the failure of the Deferred that
  _handleMessage returns.
\<close>

theorem duplicate_message_raises:
  assumes "map_of (headers msg1) MESSAGE_ID_HEADER = Some messageId"
      and "fst (u_handleMessage msg1 s) = Pending"
      and "\<forall>e \<in> set es. \<not> fires messageId e"
      and "map_of (headers msg2) MESSAGE_ID_HEADER = Some messageId"
      and "map_of (subscriptions (run es (snd (u_handleMessage msg1 s))))
             (session_token (headers msg2)) = Some sub"
      and "\<not> disconnecting (run es (snd (u_handleMessage msg1 s)))"
  shows "u_handleMessage msg2 (run es (snd (u_handleMessage msg1 s))) =
           (Failed (StompProtocolError ''Duplicate message received''),
            run es (snd (u_handleMessage msg1 s)))"
proof -
  have "messageId \<in> activeHandlers (snd (u_handleMessage msg1 s))"
    using assms(1,2) by (simp add: pending_active)
  then have "messageId \<in> activeHandlers (run es (snd (u_handleMessage msg1 s)))"
    using assms(3) by (rule active_run)
  then show ?thesis
    using assms(4,5,6) by (simp add: u_handleMessage_def u_handlerStarted_def)
qed


text \<open>
  The example: MESSAGE 1 is dispatched to a handler that does not complete; MESSAGE 2
  is dispatched and its handler completes, a frame is sent; MESSAGE 1 again fails.
\<close>

theorem duplicate_message_raises_witness:
  "map_of (headers ex_message) MESSAGE_ID_HEADER = Some ''1'' \<and>
   fst (u_handleMessage ex_message ex_subscribed) = Pending \<and>
   \<not> fires ''1'' (DataReceived [ex_message2]) \<and>
   \<not> fires ''1'' (HandlerFires ''2'' None) \<and>
   \<not> fires ''1'' (Send ''/q'' ''hello'' None) \<and>
   map_of (subscriptions
       (run [DataReceived [ex_message2], HandlerFires ''2'' None, Send ''/q'' ''hello'' None]
          (snd (u_handleMessage ex_message ex_subscribed))))
     (session_token (headers ex_message)) = Some ex_subscription \<and>
   \<not> disconnecting
       (run [DataReceived [ex_message2], HandlerFires ''2'' None, Send ''/q'' ''hello'' None]
          (snd (u_handleMessage ex_message ex_subscribed))) \<and>
   u_handleMessage ex_message
       (run [DataReceived [ex_message2], HandlerFires ''2'' None, Send ''/q'' ''hello'' None]
          (snd (u_handleMessage ex_message ex_subscribed))) =
     (Failed (StompProtocolError ''Duplicate message received''),
      run [DataReceived [ex_message2], HandlerFires ''2'' None, Send ''/q'' ''hello'' None]
          (snd (u_handleMessage ex_message ex_subscribed)))"
proof -
  let ?es = "[DataReceived [ex_message2], HandlerFires ''2'' None, Send ''/q'' ''hello'' None]"
  have a: "map_of (headers ex_message) MESSAGE_ID_HEADER = Some ''1''"
    by (simp add: ex_message_def MESSAGE_ID_HEADER_def)
  have b: "fst (u_handleMessage ex_message ex_subscribed) = Pending"
    by (simp add: eval_all)
  have c: "\<forall>e \<in> set ?es. \<not> fires ''1'' e"
    by simp
  have d: "map_of (subscriptions (run ?es (snd (u_handleMessage ex_message ex_subscribed))))
             (session_token (headers ex_message)) = Some ex_subscription"
    by (simp add: eval_all)
  have e: "\<not> disconnecting (run ?es (snd (u_handleMessage ex_message ex_subscribed)))"
    by (simp add: eval_all)
  show ?thesis
    using a b d e duplicate_message_raises [OF a b c a d e] by simp
qed

subsection \<open>Forgetting the subscriptions\<close>

text \<open>
  C6. When the drained disconnect completes after a disconnect error was recorded, the
  subscription records of the session should be left as they are. They are not when
  the connection is lost during the drain: the handlers of the messages 1 and 2 are
  running, handler 1 fails and its failure is recorded as the disconnect error; the
  connection is lost, and _handleConnectionLostDisconnect hands the error to the
  disconnected Deferred and resets _disconnectError; handler 2 completes, the drain is
  over, and _disconnect, finding no error, lets the session forget the subscription.
\<close>

theorem connection_loss_during_drain_forgets_subscriptions:
  "disconnectError
     (run [DataReceived [ex_message, ex_message2], HandlerFires ''1'' (Some (HandlerError ''boom''))]
        ex_subscribed) = Some (HandlerError ''boom'') \<and>
   disconnectError
     (run [DataReceived [ex_message, ex_message2], HandlerFires ''1'' (Some (HandlerError ''boom'')),
           ConnectionLost] ex_subscribed) = None \<and>
   length (recorded (session
     (run [DataReceived [ex_message, ex_message2], HandlerFires ''1'' (Some (HandlerError ''boom'')),
           ConnectionLost] ex_subscribed))) = 1 \<and>
   recorded (session
     (run [DataReceived [ex_message, ex_message2], HandlerFires ''1'' (Some (HandlerError ''boom'')),
           ConnectionLost, HandlerFires ''2'' None] ex_subscribed)) = [] \<and>
   fired
     (run [DataReceived [ex_message, ex_message2], HandlerFires ''1'' (Some (HandlerError ''boom'')),
           ConnectionLost, HandlerFires ''2'' None] ex_subscribed) =
     [(0, Callback), (1, Errback (HandlerError ''boom'')), (2, Callback)]"
  by (simp add: eval_all insert_Diff_if)


end
